theory Spec2Isabelle
  imports Complex_Main "HOL-Library.Sublist"
begin

section \<open>Values shared by all tools\<close>

text \<open>
  A JavaScript number is an IEEE binary64 value. The budgets that \<open>createCampaign\<close> and
  \<open>updateCampaign\<close> scale are modelled as such (\<open>number\<close> below), and their product with
  1,000,000 is rounded as the language rounds it. The amounts and metrics that the
  handlers read from the rows of a query are modelled as rationals, and so are the sums
  of the campaign comparison.

  A thrown value is an \<open>McpError\<close> (the protocol's error class, with its code), another
  instance of \<open>Error\<close> (with its message; a \<open>ZodError\<close> is one), or a value that is no
  \<open>Error\<close> instance at all (\<open>Thrown\<close>): JavaScript can throw anything, and the external
  client rejects with failure objects of its own. Such an object may or may not have a
  \<open>message\<close> property. The message of an \<open>McpError\<close> is the text given to its
  constructor.
\<close>

datatype error_code = MethodNotFound | InternalError

datatype exn = McpError error_code string | Error string | Thrown "string option"

text \<open>\<open>error.message\<close> as the template literals of the handlers' catch clauses read it:
  a missing property prints as \<open>undefined\<close>.\<close>

fun message :: "exn \<Rightarrow> string" where
  "message (McpError c m) = m"
| "message (Error m) = m"
| "message (Thrown None) = ''undefined''"
| "message (Thrown (Some m)) = m"

text \<open>Truthiness of an optional string argument (\<open>if (params.adGroupId)\<close>): \<open>undefined\<close>
  and the empty string are falsy.\<close>

definition truthy :: "string option \<Rightarrow> bool" where
  "truthy s = (case s of None \<Rightarrow> False | Some v \<Rightarrow> v \<noteq> [])"

text \<open>An optional string inside a template literal.\<close>

definition interpolate :: "string option \<Rightarrow> string" where
  "interpolate s = (case s of None \<Rightarrow> ''undefined'' | Some v \<Rightarrow> v)"

text \<open>A number inside a template literal. The limits of \<open>listCampaigns\<close> and of
  \<open>getSearchTermsReport\<close> are modelled as integers (the schemas say \<open>z.number()\<close>, and the
  tools' descriptions ask for counts); JavaScript prints an integer below \<open>10^21\<close> in
  magnitude as its decimal numeral. The builders of the top/bottom queries take the
  conversion of their counts as a parameter, and \<open>number_string\<close> is that conversion on
  integers.\<close>

fun digits :: "nat \<Rightarrow> string" where
  "digits n = (if n < 10 then [char_of (48 + n)]
               else digits (n div 10) @ [char_of (48 + n mod 10)])"

definition number_string :: "int \<Rightarrow> string" where
  "number_string i = (if i < 0 then ''-'' @ digits (nat (- i)) else digits (nat i))"

text \<open>\<open>Array.prototype.join\<close> on strings.\<close>

fun join :: "string \<Rightarrow> string list \<Rightarrow> string" where
  "join sep [] = []"
| "join sep [x] = x"
| "join sep (x # y # ys) = x @ sep @ join sep (y # ys)"

text \<open>A number other than \<open>NaN\<close>, which \<open>z.number()\<close> refuses: a finite binary64 value,
  given by the rational it is, or an infinity. The two zeros are not told apart.\<close>

datatype number = Finite rat | PlusInfinity | MinusInfinity

text \<open>The number of binary digits of a positive integer.\<close>

function bit_length :: "int \<Rightarrow> nat" where
  "bit_length n = (if n \<le> 0 then 0 else Suc (bit_length (n div 2)))"
  by pat_completeness auto
termination
  by (relation "measure nat") auto

text \<open>The integer part of the binary logarithm of a positive rational.\<close>

definition floor_log2 :: "rat \<Rightarrow> int" where
  "floor_log2 x =
    (if 1 \<le> x then int (bit_length \<lfloor>x\<rfloor>) - 1
     else - int (bit_length (\<lceil>1 / x\<rceil> - 1)))"

text \<open>Two to an integer power.\<close>

definition pow2 :: "int \<Rightarrow> rat" where
  "pow2 e = (if 0 \<le> e then 2 ^ nat e else 1 / 2 ^ nat (- e))"

text \<open>The nearest integer, the even one of two that are equally near.\<close>

definition round_half_even :: "rat \<Rightarrow> int" where
  "round_half_even x =
    (let f = \<lfloor>x\<rfloor>; d = x - of_int f
     in if d < 1 / 2 then f else if 1 / 2 < d then f + 1 else if even f then f else f + 1)"

text \<open>The binary64 number nearest to a rational, ties to even: what every arithmetic
  operation of the language makes of its exact result, and what the reading of a
  decimal numeral makes of the numeral. The result is a multiple of the unit in the last
  place of its 53 significant bits, which is never below \<open>2^-1074\<close>; a result of magnitude
  \<open>2^1024\<close> or more is an infinity.\<close>

definition round_to_double :: "rat \<Rightarrow> number" where
  "round_to_double x =
    (if x = 0 then Finite 0
     else
       (let u = pow2 (max (floor_log2 \<bar>x\<bar> - 52) (- 1074));
            r = of_int (round_half_even (x / u)) * u
        in if 2 ^ 1024 \<le> r then PlusInfinity
           else if r \<le> - (2 ^ 1024) then MinusInfinity
           else Finite r))"

text \<open>\<open>x * 1_000_000\<close>: the exact product of the two binary64 numbers, rounded.\<close>

fun times_1000000 :: "number \<Rightarrow> number" where
  "times_1000000 (Finite x) = round_to_double (x * 1000000)"
| "times_1000000 PlusInfinity = PlusInfinity"
| "times_1000000 MinusInfinity = MinusInfinity"

section \<open>The external client\<close>

datatype match_type = EXACT | PHRASE | BROAD

datatype status = ENABLED | PAUSED | REMOVED

record keyword_info =
  keyword_text :: string
  match_type :: match_type

record ad_group_criterion_create =
  agc_ad_group :: string
  agc_status :: status
  agc_negative :: bool
  agc_keyword :: keyword_info

record campaign_criterion_create =
  cc_campaign :: string
  cc_negative :: bool
  cc_keyword :: keyword_info

text \<open>An update object: the resource name and the fields assigned to it, in insertion
  order.\<close>

datatype field_value = StatusValue status | NumberValue rat | StringValue string

record resource_update =
  ru_resource_name :: string
  ru_fields :: "(string \<times> field_value) list"

text \<open>An operation of \<open>adGroupService.mutateAdGroups\<close>: the update object and the paths of
  its \<open>update_mask\<close>.\<close>

record update_operation =
  op_update :: resource_update
  op_update_mask_paths :: "string list"

record budget_create =
  bc_name :: string
  bc_amount_micros :: number
  bc_delivery_method :: string

record budget_update =
  bu_resource_name :: string
  bu_amount_micros :: number

datatype channel_type = SEARCH | DISPLAY | SHOPPING | VIDEO | MULTI_CHANNEL

record campaign_create =
  cmp_name :: string
  cmp_status :: status
  cmp_advertising_channel_type :: channel_type
  cmp_campaign_budget :: string

text \<open>Every call a handler makes on the client.\<close>

datatype ext_call =
    Query string
  | AdGroupCriteriaCreate "ad_group_criterion_create list"
  | CampaignCriteriaCreate "campaign_criterion_create list"
  | AdGroupCriteriaUpdate resource_update
  | MutateAdGroups string "update_operation list"
  | CampaignBudgetsCreate budget_create
  | CampaignsCreate campaign_create
  | CampaignBudgetsUpdate budget_update
  | CampaignsUpdate resource_update

text \<open>The explicit field mask a call carries, if it carries one. Only the operations of
  \<open>mutateAdGroups\<close> have an \<open>update_mask\<close>; the object given to
  \<open>adGroupCriteria.update\<close> or \<open>campaigns.update\<close> is the resource alone.\<close>

fun update_masks :: "ext_call \<Rightarrow> string list list" where
  "update_masks (MutateAdGroups cid ops) = map op_update_mask_paths ops"
| "update_masks _ = []"

text \<open>The rows of a query, with the sub-objects and fields the modelled handlers read.
  Every one may be absent (the handlers read them with \<open>?.\<close>).\<close>

record ad_group_fields =
  ag_id :: "string option"
  ag_name :: "string option"
  ag_status :: "string option"
  ag_cpc_bid_micros :: "rat option"
  ag_cpm_bid_micros :: "rat option"
  ag_target_cpa_micros :: "rat option"
  ag_target_roas :: "rat option"
  ag_effective_target_cpa_micros :: "rat option"
  ag_effective_target_roas :: "rat option"

record campaign_fields =
  c_id :: "string option"
  c_name :: "string option"
  c_status :: "string option"
  c_advertising_channel_type :: "string option"
  c_bidding_strategy_type :: "string option"

record campaign_budget_fields =
  cb_amount_micros :: "rat option"
  cb_resource_name :: "string option"

record metrics_fields =
  m_clicks :: "rat option"
  m_impressions :: "rat option"
  m_cost_micros :: "rat option"
  m_conversions :: "rat option"
  m_conversions_value :: "rat option"
  m_ctr :: "rat option"
  m_conversion_rate :: "rat option"
  m_search_impression_share :: "rat option"
  m_search_rank_lost_impression_share :: "rat option"
  m_search_budget_lost_impression_share :: "rat option"

record row =
  r_ad_group :: "ad_group_fields option"
  r_campaign :: "campaign_fields option"
  r_campaign_budget :: "campaign_budget_fields option"
  r_metrics :: "metrics_fields option"

text \<open>The client answers each call with rows or results, or throws. A mutate call
  answers with the resource names of its results; \<open>campaigns.create\<close> with the new
  campaign's id and resource name.\<close>

record 'row client =
  customer_id :: string
  query :: "string \<Rightarrow> exn + 'row list"
  adGroupCriteria_create :: "ad_group_criterion_create list \<Rightarrow> exn + string list"
  campaignCriteria_create :: "campaign_criterion_create list \<Rightarrow> exn + string list"
  adGroupCriteria_update :: "resource_update \<Rightarrow> exn + unit"
  mutateAdGroups :: "string \<Rightarrow> update_operation list \<Rightarrow> exn + string list"
  campaignBudgets_create :: "budget_create \<Rightarrow> exn + string"
  campaigns_create :: "campaign_create \<Rightarrow> exn + string \<times> string"
  campaignBudgets_update :: "budget_update \<Rightarrow> exn + unit"
  campaigns_update :: "resource_update \<Rightarrow> exn + unit"

text \<open>What a handler does: the calls it made on the client, in order, and the value it
  returned or the exception it threw.\<close>

type_synonym 'a outcome = "ext_call list \<times> (exn + 'a)"

text \<open>Sequencing (\<open>await\<close> one call, then go on): an exception ends the handler, and the
  calls made so far remain made.\<close>

definition and_then :: "'a outcome \<Rightarrow> ('a \<Rightarrow> 'b outcome) \<Rightarrow> 'b outcome" where
  "and_then m f =
    (case snd m of
       Inl e \<Rightarrow> (fst m, Inl e)
     | Inr a \<Rightarrow> (fst m @ fst (f a), snd (f a)))"

definition returns :: "'a \<Rightarrow> 'a outcome" where
  "returns a = ([], Inr a)"

text \<open>\<open>try { ... } catch (error) { throw new Error(`prefix${error.message}`) }\<close>.\<close>

definition rethrow_with :: "string \<Rightarrow> 'a outcome \<Rightarrow> 'a outcome" where
  "rethrow_with pre m =
    (case snd m of
       Inl e \<Rightarrow> (fst m, Inl (Error (pre @ message e)))
     | Inr a \<Rightarrow> m)"

definition run_query :: "'row client \<Rightarrow> string \<Rightarrow> 'row list outcome" where
  "run_query customer q = ([Query q], query customer q)"

text \<open>\<open>rows.map(f)\<close> with a callback that may throw: the first exception ends the map.\<close>

fun map_rows :: "('row \<Rightarrow> exn + 'e) \<Rightarrow> 'row list \<Rightarrow> exn + 'e list" where
  "map_rows f [] = Inr []"
| "map_rows f (r # rs) =
     (case f r of
        Inl e \<Rightarrow> Inl e
      | Inr x \<Rightarrow> (case map_rows f rs of Inl e \<Rightarrow> Inl e | Inr xs \<Rightarrow> Inr (x # xs)))"

section \<open>Keyword tools\<close>

record negative_keyword =
  nk_text :: string
  nk_matchType :: match_type

record addNegativeKeywords_args =
  ank_campaignId :: "string option"
  ank_adGroupId :: "string option"
  ank_keywords :: "negative_keyword list"

datatype level = level_ad_group | level_campaign

record addNegativeKeywords_result =
  anr_success :: bool
  anr_level :: level
  anr_addedKeywords :: nat

text \<open>\<open>addNegativeKeywords\<close>. The function ends without a \<open>return\<close> after the
  \<open>else if\<close>; that path yields \<open>undefined\<close>, here \<open>None\<close>.\<close>

definition addNegativeKeywords ::
  "'row client \<Rightarrow> addNegativeKeywords_args \<Rightarrow> addNegativeKeywords_result option outcome" where
  "addNegativeKeywords customer params =
    (if \<not> truthy (ank_campaignId params) \<and> \<not> truthy (ank_adGroupId params)
     then ([], Inl (Error ''Either campaignId or adGroupId must be provided''))
     else if truthy (ank_adGroupId params) then
       (let operations = map (\<lambda>keyword.
              \<lparr>agc_ad_group = ''customers/'' @ customer_id customer @ ''/adGroups/''
                                @ interpolate (ank_adGroupId params),
               agc_status = ENABLED,
               agc_negative = True,
               agc_keyword = \<lparr>keyword_text = nk_text keyword,
                              match_type = nk_matchType keyword\<rparr>\<rparr>) (ank_keywords params)
        in case adGroupCriteria_create customer operations of
             Inl e \<Rightarrow> ([AdGroupCriteriaCreate operations], Inl e)
           | Inr results \<Rightarrow>
               ([AdGroupCriteriaCreate operations],
                Inr (Some \<lparr>anr_success = True, anr_level = level_ad_group,
                            anr_addedKeywords = length results\<rparr>)))
     else if truthy (ank_campaignId params) then
       (let operations = map (\<lambda>keyword.
              \<lparr>cc_campaign = ''customers/'' @ customer_id customer @ ''/campaigns/''
                                @ interpolate (ank_campaignId params),
               cc_negative = True,
               cc_keyword = \<lparr>keyword_text = nk_text keyword,
                             match_type = nk_matchType keyword\<rparr>\<rparr>) (ank_keywords params)
        in case campaignCriteria_create customer operations of
             Inl e \<Rightarrow> ([CampaignCriteriaCreate operations], Inl e)
           | Inr results \<Rightarrow>
               ([CampaignCriteriaCreate operations],
                Inr (Some \<lparr>anr_success = True, anr_level = level_campaign,
                            anr_addedKeywords = length results\<rparr>)))
     else ([], Inr None))"

record updateKeyword_args =
  uk_keywordId :: string
  uk_adGroupId :: string
  uk_status :: "status option"
  uk_cpcBidMicros :: "rat option"

record updateKeyword_result =
  ukr_success :: bool
  ukr_keywordId :: string

text \<open>\<open>updateKeyword\<close>: \<open>updates\<close> receives the supplied fields, and the resource name
  spread with them is handed to \<open>customer.adGroupCriteria.update\<close>.\<close>

definition updateKeyword :: "'row client \<Rightarrow> updateKeyword_args \<Rightarrow> updateKeyword_result outcome" where
  "updateKeyword customer params =
    (let updates =
           (case uk_status params of None \<Rightarrow> []
            | Some s \<Rightarrow> [(''status'', StatusValue s)])
         @ (case uk_cpcBidMicros params of None \<Rightarrow> []
            | Some b \<Rightarrow> [(''cpc_bid_micros'', NumberValue b)]);
         resource = \<lparr>ru_resource_name = ''customers/'' @ customer_id customer
                        @ ''/adGroupCriteria/'' @ uk_adGroupId params @ ''~''
                        @ uk_keywordId params,
                      ru_fields = updates\<rparr>
     in case adGroupCriteria_update customer resource of
          Inl e \<Rightarrow> ([AdGroupCriteriaUpdate resource], Inl e)
        | Inr u \<Rightarrow> ([AdGroupCriteriaUpdate resource],
                    Inr \<lparr>ukr_success = True, ukr_keywordId = uk_keywordId params\<rparr>))"

section \<open>Ad group tools\<close>

record updateAdGroup_args =
  ua_adGroupId :: string
  ua_name :: "string option"
  ua_status :: "status option"
  ua_cpcBidMicros :: "rat option"
  ua_cpmBidMicros :: "rat option"
  ua_targetCpaMicros :: "rat option"
  ua_targetRoas :: "rat option"

record updateAdGroup_result =
  uar_success :: bool
  uar_resourceName :: "string option"

text \<open>One \<open>if (args.f !== undefined)\<close> block of \<open>updateAdGroup\<close>: it assigns the field
  of \<open>updateObject\<close> and pushes its path on \<open>updateMask\<close>.\<close>

definition set_field ::
  "string \<Rightarrow> field_value option \<Rightarrow> (string \<times> field_value) list \<times> string list
    \<Rightarrow> (string \<times> field_value) list \<times> string list" where
  "set_field path v st =
    (case v of None \<Rightarrow> st
     | Some x \<Rightarrow> (fst st @ [(path, x)], snd st @ [path]))"

text \<open>\<open>updateAdGroup\<close>. Whatever is thrown inside \<open>try\<close> is rethrown as an \<open>Error\<close>
  with the tool's prefix.\<close>

definition updateAdGroup :: "'row client \<Rightarrow> updateAdGroup_args \<Rightarrow> updateAdGroup_result outcome" where
  "updateAdGroup client args =
    rethrow_with ''Failed to update ad group: ''
      (let st0 = ([], []);
           st1 = set_field ''name'' (map_option StringValue (ua_name args)) st0;
           st2 = set_field ''status'' (map_option StatusValue (ua_status args)) st1;
           st3 = set_field ''cpc_bid_micros''
                   (map_option NumberValue (ua_cpcBidMicros args)) st2;
           st4 = set_field ''cpm_bid_micros''
                   (map_option NumberValue (ua_cpmBidMicros args)) st3;
           st5 = set_field ''target_cpa_micros''
                   (map_option NumberValue (ua_targetCpaMicros args)) st4;
           st6 = set_field ''target_roas'' (map_option NumberValue (ua_targetRoas args)) st5;
           updateObject = \<lparr>ru_resource_name = ''customers/'' @ customer_id client
                              @ ''/adGroups/'' @ ua_adGroupId args,
                            ru_fields = fst st6\<rparr>;
           adGroupOperation = \<lparr>op_update = updateObject, op_update_mask_paths = snd st6\<rparr>
       in and_then
            ([MutateAdGroups (customer_id client) [adGroupOperation]],
             mutateAdGroups client (customer_id client) [adGroupOperation])
            (\<lambda>results.
               returns \<lparr>uar_success = True,
                        uar_resourceName = (case results of [] \<Rightarrow> None
                                            | r # rs \<Rightarrow> Some r)\<rparr>))"

record getAdGroup_args =
  ga_adGroupId :: string

record getAdGroup_result =
  gar_id :: "string option"
  gar_name :: "string option"
  gar_status :: "string option"
  gar_campaignId :: "string option"
  gar_campaignName :: "string option"
  gar_cpcBidMicros :: "rat option"
  gar_cpmBidMicros :: "rat option"
  gar_targetCpaMicros :: "rat option"
  gar_targetRoas :: "rat option"
  gar_effectiveTargetCpaMicros :: "rat option"
  gar_effectiveTargetRoas :: "rat option"

definition getAdGroup_select :: string where
  "getAdGroup_select =
     ''\<newline>''
     @ ''      SELECT \<newline>''
     @ ''        ad_group.id,\<newline>''
     @ ''        ad_group.name,\<newline>''
     @ ''        ad_group.status,\<newline>''
     @ ''        ad_group.campaign,\<newline>''
     @ ''        ad_group.cpc_bid_micros,\<newline>''
     @ ''        ad_group.cpm_bid_micros,\<newline>''
     @ ''        ad_group.target_cpa_micros,\<newline>''
     @ ''        ad_group.target_roas,\<newline>''
     @ ''        ad_group.effective_target_cpa_micros,\<newline>''
     @ ''        ad_group.effective_target_roas,\<newline>''
     @ ''        campaign.name,\<newline>''
     @ ''        campaign.id\<newline>''
     @ ''      FROM ad_group\<newline>''
     @ ''      WHERE ad_group.id = ''"

definition getAdGroup_query :: "getAdGroup_args \<Rightarrow> string" where
  "getAdGroup_query args =
    getAdGroup_select @ ga_adGroupId args @ (''\<newline>''
      @ ''    '')"

text \<open>\<open>getAdGroup\<close>. The \<open>throw\<close> for an empty response stands inside the \<open>try\<close>, so it
  is caught and rethrown with the prefix, like a failure of the query.\<close>

definition getAdGroup :: "row client \<Rightarrow> getAdGroup_args \<Rightarrow> getAdGroup_result outcome" where
  "getAdGroup client args =
    rethrow_with ''Failed to get ad group: ''
      (and_then (run_query client (getAdGroup_query args))
         (\<lambda>response.
            case response of
              [] \<Rightarrow> ([], Inl (Error ''Ad group not found''))
            | row # rest \<Rightarrow>
                returns
                  \<lparr>gar_id = Option.bind (r_ad_group row) ag_id,
                   gar_name = Option.bind (r_ad_group row) ag_name,
                   gar_status = Option.bind (r_ad_group row) ag_status,
                   gar_campaignId = Option.bind (r_campaign row) c_id,
                   gar_campaignName = Option.bind (r_campaign row) c_name,
                   gar_cpcBidMicros = Option.bind (r_ad_group row) ag_cpc_bid_micros,
                   gar_cpmBidMicros = Option.bind (r_ad_group row) ag_cpm_bid_micros,
                   gar_targetCpaMicros = Option.bind (r_ad_group row) ag_target_cpa_micros,
                   gar_targetRoas = Option.bind (r_ad_group row) ag_target_roas,
                   gar_effectiveTargetCpaMicros =
                     Option.bind (r_ad_group row) ag_effective_target_cpa_micros,
                   gar_effectiveTargetRoas =
                     Option.bind (r_ad_group row) ag_effective_target_roas\<rparr>))"

section \<open>Campaign tools\<close>

datatype date_range =
    TODAY | YESTERDAY | LAST_7_DAYS | LAST_14_DAYS | LAST_30_DAYS | THIS_MONTH | LAST_MONTH
  | THIS_QUARTER | LAST_QUARTER | THIS_YEAR | LAST_YEAR | ALL_TIME | CUSTOM

text \<open>The enum member as the string it is.\<close>

fun date_range_string :: "date_range \<Rightarrow> string" where
  "date_range_string TODAY = ''TODAY''"
| "date_range_string YESTERDAY = ''YESTERDAY''"
| "date_range_string LAST_7_DAYS = ''LAST_7_DAYS''"
| "date_range_string LAST_14_DAYS = ''LAST_14_DAYS''"
| "date_range_string LAST_30_DAYS = ''LAST_30_DAYS''"
| "date_range_string THIS_MONTH = ''THIS_MONTH''"
| "date_range_string LAST_MONTH = ''LAST_MONTH''"
| "date_range_string THIS_QUARTER = ''THIS_QUARTER''"
| "date_range_string LAST_QUARTER = ''LAST_QUARTER''"
| "date_range_string THIS_YEAR = ''THIS_YEAR''"
| "date_range_string LAST_YEAR = ''LAST_YEAR''"
| "date_range_string ALL_TIME = ''ALL_TIME''"
| "date_range_string CUSTOM = ''CUSTOM''"

record customDateRange =
  startDate :: string
  endDate :: string

text \<open>The arguments of \<open>listCampaigns\<close> as \<open>listCampaignsSchema\<close> leaves them: defaults
  filled in, \<open>customDateRange\<close> optional whatever \<open>dateRange\<close> is.\<close>

record listCampaigns_args =
  lc_limit :: int
  lc_includeRemoved :: bool
  lc_dateRange :: date_range
  lc_customDateRange :: "customDateRange option"

definition listCampaigns_whereConditions :: "listCampaigns_args \<Rightarrow> string list" where
  \<open>listCampaigns_whereConditions params =
    (if \<not> lc_includeRemoved params then [''campaign.status != "REMOVED"''] else [])
    @ (if lc_dateRange params \<noteq> ALL_TIME then
         (case (lc_dateRange params = CUSTOM, lc_customDateRange params) of
            (True, Some r) \<Rightarrow>
              [''segments.date BETWEEN '' @ [CHR 0x27] @ startDate r @ [CHR 0x27]
               @ '' AND '' @ [CHR 0x27] @ endDate r @ [CHR 0x27]]
          | _ \<Rightarrow> [''segments.date DURING '' @ date_range_string (lc_dateRange params)])
       else [])\<close>

definition listCampaigns_select :: string where
  "listCampaigns_select =
     ''\<newline>''
     @ ''    SELECT\<newline>''
     @ ''      campaign.id,\<newline>''
     @ ''      campaign.name,\<newline>''
     @ ''      campaign.status,\<newline>''
     @ ''      campaign.advertising_channel_type,\<newline>''
     @ ''      campaign.start_date,\<newline>''
     @ ''      campaign.end_date,\<newline>''
     @ ''      campaign_budget.amount_micros,\<newline>''
     @ ''      metrics.impressions,\<newline>''
     @ ''      metrics.clicks,\<newline>''
     @ ''      metrics.cost_micros,\<newline>''
     @ ''      metrics.conversions,\<newline>''
     @ ''      metrics.ctr,\<newline>''
     @ ''      metrics.average_cpc,\<newline>''
     @ ''      metrics.conversion_rate,\<newline>''
     @ ''      metrics.cost_per_conversion\<newline>''
     @ ''    FROM campaign\<newline>''
     @ ''    ''"

definition listCampaigns_query :: "listCampaigns_args \<Rightarrow> string" where
  "listCampaigns_query params =
    (let whereConditions = listCampaigns_whereConditions params;
         whereClause = (if length whereConditions > 0
                        then ''WHERE '' @ join '' AND '' whereConditions else [])
     in listCampaigns_select
        @ whereClause
        @ (''\<newline>''
           @ ''    ORDER BY campaign.id\<newline>''
           @ ''    LIMIT ''
           @ number_string (lc_limit params)
           @ ''\<newline>''
           @ ''  ''))"

text \<open>\<open>listCampaigns\<close>: nothing is checked before the query is sent. The callback that
  reshapes a row is a parameter.\<close>

definition listCampaigns ::
  "('row \<Rightarrow> exn + 'e) \<Rightarrow> 'row client \<Rightarrow> listCampaigns_args \<Rightarrow> 'e list outcome" where
  "listCampaigns entry customer params =
    and_then (run_query customer (listCampaigns_query params))
      (\<lambda>campaigns. ([], map_rows entry campaigns))"

record createCampaign_args =
  cr_name :: string
  cr_budget :: number
  cr_advertisingChannelType :: channel_type
  cr_status :: status

record createCampaign_result =
  crr_id :: string
  crr_resourceName :: string
  crr_name :: string
  crr_status :: status
  crr_budget :: number

text \<open>\<open>createCampaign\<close>: the budget is created first, with \<open>params.budget * 1_000_000\<close> as
  its amount, and then the campaign that refers to it.\<close>

definition createCampaign :: "'row client \<Rightarrow> createCampaign_args \<Rightarrow> createCampaign_result outcome" where
  "createCampaign customer params =
    (let budget = \<lparr>bc_name = ''Budget for '' @ cr_name params,
                    bc_amount_micros = times_1000000 (cr_budget params),
                    bc_delivery_method = ''STANDARD''\<rparr>
     in and_then ([CampaignBudgetsCreate budget], campaignBudgets_create customer budget)
          (\<lambda>budgetResource.
             let c = \<lparr>cmp_name = cr_name params,
                      cmp_status = cr_status params,
                      cmp_advertising_channel_type = cr_advertisingChannelType params,
                      cmp_campaign_budget = budgetResource\<rparr>
             in and_then ([CampaignsCreate c], campaigns_create customer c)
                  (\<lambda>created.
                     returns \<lparr>crr_id = fst created,
                              crr_resourceName = snd created,
                              crr_name = cr_name params,
                              crr_status = cr_status params,
                              crr_budget = cr_budget params\<rparr>)))"

record updateCampaign_args =
  uc_campaignId :: string
  uc_name :: "string option"
  uc_status :: "status option"
  uc_budget :: "number option"

record updateCampaign_result =
  ucr_success :: bool
  ucr_campaignId :: string

definition updateCampaign_campaignQuery :: "updateCampaign_args \<Rightarrow> string" where
  "updateCampaign_campaignQuery params =
     ''\<newline>''
     @ ''      SELECT campaign_budget.resource_name\<newline>''
     @ ''      FROM campaign\<newline>''
     @ ''      WHERE campaign.id = ''
     @ uc_campaignId params
     @ ''\<newline>''
     @ ''    ''"

text \<open>The budget step of \<open>updateCampaign\<close>: the budget's resource name is looked up, and
  the budget is updated, to \<open>params.budget * 1_000_000\<close>, when the first row has one.\<close>

definition updateCampaign_budget :: "row client \<Rightarrow> updateCampaign_args \<Rightarrow> unit outcome" where
  "updateCampaign_budget customer params =
    (case uc_budget params of
       None \<Rightarrow> returns ()
     | Some budget \<Rightarrow>
         and_then (run_query customer (updateCampaign_campaignQuery params))
           (\<lambda>rows.
              case (case rows of [] \<Rightarrow> None
                    | r # rest \<Rightarrow> Option.bind (r_campaign_budget r) cb_resource_name) of
                None \<Rightarrow> returns ()
              | Some name \<Rightarrow>
                  if name = [] then returns ()
                  else (let u = \<lparr>bu_resource_name = name,
                                  bu_amount_micros = times_1000000 budget\<rparr>
                        in ([CampaignBudgetsUpdate u], campaignBudgets_update customer u))))"

definition updateCampaign :: "row client \<Rightarrow> updateCampaign_args \<Rightarrow> updateCampaign_result outcome" where
  "updateCampaign customer params =
    (let updates =
           (case uc_name params of None \<Rightarrow> [] | Some n \<Rightarrow> [(''name'', StringValue n)])
         @ (case uc_status params of None \<Rightarrow> [] | Some s \<Rightarrow> [(''status'', StatusValue s)])
     in and_then (updateCampaign_budget customer params)
          (\<lambda>u. and_then
                 (if length updates > 0 then
                    (let c = \<lparr>ru_resource_name = ''customers/'' @ customer_id customer
                                 @ ''/campaigns/'' @ uc_campaignId params,
                              ru_fields = updates\<rparr>
                     in ([CampaignsUpdate c], campaigns_update customer c))
                  else returns ())
                 (\<lambda>u. returns \<lparr>ucr_success = True,
                                ucr_campaignId = uc_campaignId params\<rparr>)))"

section \<open>Performance tools\<close>

text \<open>The arguments of \<open>getSearchTermsReport\<close> as its schema leaves them. The schema's
  enum has seven of the date ranges (with \<open>CUSTOM\<close>).\<close>

record getSearchTermsReport_args =
  st_campaignId :: "string option"
  st_adGroupId :: "string option"
  st_dateRange :: date_range
  st_customDateRange :: "customDateRange option"
  st_limit :: int
  st_minImpressions :: int

definition getSearchTermsReport_dateClause :: "getSearchTermsReport_args \<Rightarrow> string" where
  "getSearchTermsReport_dateClause params =
    (case (st_dateRange params = CUSTOM, st_customDateRange params) of
       (True, Some r) \<Rightarrow>
         ''segments.date BETWEEN '' @ [CHR 0x27] @ startDate r @ [CHR 0x27]
         @ '' AND '' @ [CHR 0x27] @ endDate r @ [CHR 0x27]
     | _ \<Rightarrow> ''segments.date DURING '' @ date_range_string (st_dateRange params))"

definition getSearchTermsReport_whereClause :: "getSearchTermsReport_args \<Rightarrow> string" where
  "getSearchTermsReport_whereClause params =
    (let dateClause = getSearchTermsReport_dateClause params
     in ''WHERE '' @ dateClause
        @ (''\<newline>''
           @ ''    AND metrics.impressions >= ''
           @ number_string (st_minImpressions params))
        @ (if truthy (st_campaignId params)
           then '' AND campaign.id = '' @ interpolate (st_campaignId params) else [])
        @ (if truthy (st_adGroupId params)
           then '' AND ad_group.id = '' @ interpolate (st_adGroupId params) else []))"

definition getSearchTermsReport_select :: string where
  "getSearchTermsReport_select =
     ''\<newline>''
     @ ''    SELECT\<newline>''
     @ ''      search_term_view.search_term,\<newline>''
     @ ''      search_term_view.status,\<newline>''
     @ ''      campaign.id,\<newline>''
     @ ''      campaign.name,\<newline>''
     @ ''      ad_group.id,\<newline>''
     @ ''      ad_group.name,\<newline>''
     @ ''      metrics.impressions,\<newline>''
     @ ''      metrics.clicks,\<newline>''
     @ ''      metrics.cost_micros,\<newline>''
     @ ''      metrics.conversions,\<newline>''
     @ ''      metrics.ctr,\<newline>''
     @ ''      metrics.average_cpc,\<newline>''
     @ ''      metrics.conversion_rate\<newline>''
     @ ''    FROM search_term_view\<newline>''
     @ ''    ''"

definition getSearchTermsReport_query :: "getSearchTermsReport_args \<Rightarrow> string" where
  "getSearchTermsReport_query params =
    (let whereClause = getSearchTermsReport_whereClause params
     in getSearchTermsReport_select
        @ whereClause
        @ (''\<newline>''
           @ ''    ORDER BY metrics.impressions DESC\<newline>''
           @ ''    LIMIT ''
           @ number_string (st_limit params)
           @ ''\<newline>''
           @ ''  ''))"

text \<open>\<open>getSearchTermsReport\<close>: as in \<open>listCampaigns\<close>, the query is sent unconditionally
  and the row callback is a parameter.\<close>

definition getSearchTermsReport ::
  "('row \<Rightarrow> exn + 'e) \<Rightarrow> 'row client \<Rightarrow> getSearchTermsReport_args \<Rightarrow> 'e list outcome" where
  "getSearchTermsReport entry customer params =
    and_then (run_query customer (getSearchTermsReport_query params))
      (\<lambda>searchTerms. ([], map_rows entry searchTerms))"

section \<open>Analytics tools\<close>

text \<open>\<open>microsToNumber\<close>, on the values its callers pass: a number or \<open>undefined\<close>.\<close>

definition microsToNumber :: "rat option \<Rightarrow> rat option" where
  "microsToNumber micros =
    (case micros of None \<Rightarrow> None | Some m \<Rightarrow> Some (m / 1000000))"

text \<open>\<open>x || 0\<close> on an optional number: \<open>undefined\<close> and \<open>0\<close> are falsy.\<close>

definition or_zero :: "rat option \<Rightarrow> rat" where
  "or_zero x = (case x of None \<Rightarrow> 0 | Some v \<Rightarrow> if v = 0 then 0 else v)"

text \<open>The metrics a tool can rank by; each schema's enum has some of them.\<close>

datatype metric =
    COST | CLICKS | CONVERSIONS | CTR | CONVERSION_RATE | CPC | QUALITY_SCORE
  | REVENUE | ROAS | CPA

text \<open>\<open>args.metric.toLowerCase()\<close>.\<close>

fun metric_toLowerCase :: "metric \<Rightarrow> string" where
  "metric_toLowerCase COST = ''cost''"
| "metric_toLowerCase CLICKS = ''clicks''"
| "metric_toLowerCase CONVERSIONS = ''conversions''"
| "metric_toLowerCase CTR = ''ctr''"
| "metric_toLowerCase CONVERSION_RATE = ''conversion_rate''"
| "metric_toLowerCase CPC = ''cpc''"
| "metric_toLowerCase QUALITY_SCORE = ''quality_score''"
| "metric_toLowerCase REVENUE = ''revenue''"
| "metric_toLowerCase ROAS = ''roas''"
| "metric_toLowerCase CPA = ''cpa''"

text \<open>The metrics of \<open>getTopBottomKeywordsSchema\<close> and of \<open>getTopBottomProductsSchema\<close>.\<close>

definition getTopBottomKeywords_metrics :: "metric list" where
  "getTopBottomKeywords_metrics =
    [COST, CLICKS, CONVERSIONS, CTR, CONVERSION_RATE, CPC, QUALITY_SCORE]"

definition getTopBottomProducts_metrics :: "metric list" where
  "getTopBottomProducts_metrics =
    [COST, CLICKS, CONVERSIONS, REVENUE, ROAS, CTR, CONVERSION_RATE]"

text \<open>The arguments of \<open>getTopBottomKeywords\<close>. The counts are numbers of any kind
  (\<open>z.number()\<close>), of a type left open.\<close>

record 'n getTopBottomKeywords_args =
  tk_metric :: metric
  tk_dateRange :: date_range
  tk_topCount :: 'n
  tk_bottomCount :: 'n
  tk_campaignId :: "string option"
  tk_adGroupId :: "string option"
  tk_includeNegative :: bool

text \<open>The \<open>switch\<close> of \<open>getTopBottomKeywords\<close>; \<open>COST\<close> keeps the initial value.\<close>

fun keywords_orderByField :: "metric \<Rightarrow> string" where
  "keywords_orderByField CLICKS = ''metrics.clicks''"
| "keywords_orderByField CONVERSIONS = ''metrics.conversions''"
| "keywords_orderByField CTR = ''metrics.ctr''"
| "keywords_orderByField CONVERSION_RATE = ''metrics.conversion_rate''"
| "keywords_orderByField CPC = ''metrics.average_cpc''"
| "keywords_orderByField QUALITY_SCORE = ''ad_group_criterion.quality_info.quality_score''"
| "keywords_orderByField _ = ''metrics.cost_micros''"

definition keywords_conditions :: "'n getTopBottomKeywords_args \<Rightarrow> string list" where
  "keywords_conditions args =
    (if truthy (tk_campaignId args)
     then [''campaign.id = '' @ interpolate (tk_campaignId args)] else [])
    @ (if truthy (tk_adGroupId args)
       then [''ad_group.id = '' @ interpolate (tk_adGroupId args)] else [])
    @ (if \<not> tk_includeNegative args then [''ad_group_criterion.negative = false''] else [])
    @ [''ad_group_criterion.status != '' @ [CHR 0x27] @ ''REMOVED'' @ [CHR 0x27]]"

definition keywords_select :: string where
  "keywords_select =
     ''\<newline>''
     @ ''      SELECT \<newline>''
     @ ''        ad_group_criterion.keyword.text,\<newline>''
     @ ''        ad_group_criterion.keyword.match_type,\<newline>''
     @ ''        ad_group_criterion.status,\<newline>''
     @ ''        ad_group_criterion.negative,\<newline>''
     @ ''        ad_group_criterion.quality_info.quality_score,\<newline>''
     @ ''        ad_group.name,\<newline>''
     @ ''        campaign.name,\<newline>''
     @ ''        metrics.clicks,\<newline>''
     @ ''        metrics.impressions,\<newline>''
     @ ''        metrics.cost_micros,\<newline>''
     @ ''        metrics.conversions,\<newline>''
     @ ''        metrics.conversions_value,\<newline>''
     @ ''        metrics.ctr,\<newline>''
     @ ''        metrics.average_cpc,\<newline>''
     @ ''        metrics.conversion_rate,\<newline>''
     @ ''        metrics.cost_per_conversion\<newline>''
     @ ''      FROM keyword_view\<newline>''
     @ ''    ''"

definition keywords_baseQuery :: "'n getTopBottomKeywords_args \<Rightarrow> string" where
  "keywords_baseQuery args =
    (let conditions = keywords_conditions args
     in keywords_select
        @ (if length conditions > 0 then '' WHERE '' @ join '' AND '' conditions else [])
        @ ('' DURING '' @ date_range_string (tk_dateRange args)))"

text \<open>The two queries. \<open>toString\<close> is the conversion of a number to a string that the
  template literal applies to \<open>args.topCount\<close> and \<open>args.bottomCount\<close>.\<close>

definition keywords_topQuery :: "('n \<Rightarrow> string) \<Rightarrow> 'n getTopBottomKeywords_args \<Rightarrow> string" where
  "keywords_topQuery toString args =
    keywords_baseQuery args
    @ ('' ORDER BY '' @ keywords_orderByField (tk_metric args) @ '' DESC LIMIT ''
       @ toString (tk_topCount args))"

definition keywords_bottomCondition :: "'n getTopBottomKeywords_args \<Rightarrow> string" where
  "keywords_bottomCondition args =
    (if tk_metric args = QUALITY_SCORE then []
     else '' AND '' @ keywords_orderByField (tk_metric args) @ '' > 0'')"

definition keywords_bottomQuery :: "('n \<Rightarrow> string) \<Rightarrow> 'n getTopBottomKeywords_args \<Rightarrow> string" where
  "keywords_bottomQuery toString args =
    keywords_baseQuery args @ keywords_bottomCondition args
    @ ('' ORDER BY '' @ keywords_orderByField (tk_metric args) @ '' ASC LIMIT ''
       @ toString (tk_bottomCount args))"

record 'e top_bottom_result =
  tb_metric :: metric
  tb_dateRange :: date_range
  tb_topPerformers :: "'e list"
  tb_bottomPerformers :: "'e list"

text \<open>\<open>getTopBottomKeywords\<close>. The formatter of a row (\<open>formatKeyword\<close>, which reads every
  field with \<open>?.\<close> and cannot throw) is a parameter, and so is \<open>toString\<close>.\<close>

definition getTopBottomKeywords ::
  "('row \<Rightarrow> 'e) \<Rightarrow> ('n \<Rightarrow> string) \<Rightarrow> 'row client \<Rightarrow> 'n getTopBottomKeywords_args
    \<Rightarrow> 'e top_bottom_result outcome" where
  "getTopBottomKeywords formatKeyword toString client args =
    rethrow_with ''Failed to get top/bottom keywords: ''
      (and_then (run_query client (keywords_topQuery toString args))
         (\<lambda>topResponse.
            and_then (run_query client (keywords_bottomQuery toString args))
              (\<lambda>bottomResponse.
                 returns \<lparr>tb_metric = tk_metric args,
                          tb_dateRange = tk_dateRange args,
                          tb_topPerformers = map formatKeyword topResponse,
                          tb_bottomPerformers = map formatKeyword bottomResponse\<rparr>)))"

record getCampaignComparison_args =
  cmpa_dateRange :: date_range
  cmpa_metric :: metric
  cmpa_includeRemoved :: bool

definition getCampaignComparison_select :: string where
  "getCampaignComparison_select =
     ''\<newline>''
     @ ''      SELECT \<newline>''
     @ ''        campaign.id,\<newline>''
     @ ''        campaign.name,\<newline>''
     @ ''        campaign.status,\<newline>''
     @ ''        campaign.advertising_channel_type,\<newline>''
     @ ''        campaign.bidding_strategy_type,\<newline>''
     @ ''        campaign_budget.amount_micros,\<newline>''
     @ ''        metrics.clicks,\<newline>''
     @ ''        metrics.impressions,\<newline>''
     @ ''        metrics.cost_micros,\<newline>''
     @ ''        metrics.conversions,\<newline>''
     @ ''        metrics.conversions_value,\<newline>''
     @ ''        metrics.ctr,\<newline>''
     @ ''        metrics.conversion_rate,\<newline>''
     @ ''        metrics.cost_per_conversion,\<newline>''
     @ ''        metrics.search_impression_share,\<newline>''
     @ ''        metrics.search_rank_lost_impression_share,\<newline>''
     @ ''        metrics.search_budget_lost_impression_share\<newline>''
     @ ''      FROM campaign\<newline>''
     @ ''      ''"

definition getCampaignComparison_query :: "getCampaignComparison_args \<Rightarrow> string" where
  "getCampaignComparison_query args =
    (let dateRangeClause = '' DURING '' @ date_range_string (cmpa_dateRange args)
     in getCampaignComparison_select
        @ (if \<not> cmpa_includeRemoved args
           then ''WHERE campaign.status != '' @ [CHR 0x27] @ ''REMOVED'' @ [CHR 0x27] else [])
        @ ''\<newline>''
        @ ''      ''
        @ dateRangeClause
        @ ''\<newline>''
        @ ''      ORDER BY metrics.''
        @ (if cmpa_metric args = ROAS then ''conversions_value''
           else if cmpa_metric args = CPA then ''cost_per_conversion''
           else metric_toLowerCase (cmpa_metric args))
        @ '' DESC\<newline>''
        @ ''    '')"

record comparison_metrics =
  cm_clicks :: rat
  cm_impressions :: rat
  cm_cost :: rat
  cm_conversions :: rat
  cm_revenue :: rat
  cm_ctr :: rat
  cm_conversionRate :: rat
  cm_cpa :: rat
  cm_roas :: rat
  cm_searchImpressionShare :: rat
  cm_searchRankLostImpressionShare :: rat
  cm_searchBudgetLostImpressionShare :: rat

record comparison_entry =
  ce_id :: "string option"
  ce_name :: "string option"
  ce_status :: "string option"
  ce_type :: "string option"
  ce_biddingStrategy :: "string option"
  ce_dailyBudget :: rat
  ce_metrics :: comparison_metrics

text \<open>The callback of \<open>response.map\<close> in \<open>getCampaignComparison\<close>.\<close>

definition comparison_entry :: "row \<Rightarrow> comparison_entry" where
  "comparison_entry row =
    (let cost = or_zero (microsToNumber (Option.bind (r_metrics row) m_cost_micros));
         revenue = or_zero (microsToNumber (Option.bind (r_metrics row) m_conversions_value));
         conversions = or_zero (Option.bind (r_metrics row) m_conversions)
     in \<lparr>ce_id = Option.bind (r_campaign row) c_id,
         ce_name = Option.bind (r_campaign row) c_name,
         ce_status = Option.bind (r_campaign row) c_status,
         ce_type = Option.bind (r_campaign row) c_advertising_channel_type,
         ce_biddingStrategy = Option.bind (r_campaign row) c_bidding_strategy_type,
         ce_dailyBudget =
           or_zero (microsToNumber (Option.bind (r_campaign_budget row) cb_amount_micros)),
         ce_metrics =
           \<lparr>cm_clicks = or_zero (Option.bind (r_metrics row) m_clicks),
            cm_impressions = or_zero (Option.bind (r_metrics row) m_impressions),
            cm_cost = cost,
            cm_conversions = conversions,
            cm_revenue = revenue,
            cm_ctr = or_zero (Option.bind (r_metrics row) m_ctr),
            cm_conversionRate = or_zero (Option.bind (r_metrics row) m_conversion_rate),
            cm_cpa = (if conversions > 0 then cost / conversions else 0),
            cm_roas = (if cost > 0 then revenue / cost else 0),
            cm_searchImpressionShare =
              or_zero (Option.bind (r_metrics row) m_search_impression_share),
            cm_searchRankLostImpressionShare =
              or_zero (Option.bind (r_metrics row) m_search_rank_lost_impression_share),
            cm_searchBudgetLostImpressionShare =
              or_zero (Option.bind (r_metrics row) m_search_budget_lost_impression_share)\<rparr>\<rparr>)"

record metric_sums =
  s_clicks :: rat
  s_impressions :: rat
  s_cost :: rat
  s_conversions :: rat
  s_revenue :: rat

text \<open>The reducer of \<open>campaigns.reduce\<close> and the accumulator it starts from.\<close>

definition add_campaign :: "metric_sums \<Rightarrow> comparison_entry \<Rightarrow> metric_sums" where
  "add_campaign acc c =
    \<lparr>s_clicks = s_clicks acc + cm_clicks (ce_metrics c),
     s_impressions = s_impressions acc + cm_impressions (ce_metrics c),
     s_cost = s_cost acc + cm_cost (ce_metrics c),
     s_conversions = s_conversions acc + cm_conversions (ce_metrics c),
     s_revenue = s_revenue acc + cm_revenue (ce_metrics c)\<rparr>"

definition no_campaigns :: metric_sums where
  "no_campaigns =
    \<lparr>s_clicks = 0, s_impressions = 0, s_cost = 0, s_conversions = 0, s_revenue = 0\<rparr>"

record totals =
  t_clicks :: rat
  t_impressions :: rat
  t_cost :: rat
  t_conversions :: rat
  t_revenue :: rat
  t_ctr :: rat
  t_conversionRate :: rat
  t_cpa :: rat
  t_roas :: rat

text \<open>The totals: the reduction, then the four ratios assigned from the sums.\<close>

definition comparison_totals :: "comparison_entry list \<Rightarrow> totals" where
  "comparison_totals campaigns =
    (let acc = foldl add_campaign no_campaigns campaigns
     in \<lparr>t_clicks = s_clicks acc,
         t_impressions = s_impressions acc,
         t_cost = s_cost acc,
         t_conversions = s_conversions acc,
         t_revenue = s_revenue acc,
         t_ctr = (if s_impressions acc > 0
                  then (s_clicks acc / s_impressions acc) * 100 else 0),
         t_conversionRate = (if s_clicks acc > 0
                             then (s_conversions acc / s_clicks acc) * 100 else 0),
         t_cpa = (if s_conversions acc > 0 then s_cost acc / s_conversions acc else 0),
         t_roas = (if s_cost acc > 0 then s_revenue acc / s_cost acc else 0)\<rparr>)"

record getCampaignComparison_result =
  gcc_dateRange :: date_range
  gcc_sortedBy :: metric
  gcc_totals :: totals
  gcc_campaigns :: "comparison_entry list"

definition getCampaignComparison ::
  "row client \<Rightarrow> getCampaignComparison_args \<Rightarrow> getCampaignComparison_result outcome" where
  "getCampaignComparison client args =
    rethrow_with ''Failed to get campaign comparison: ''
      (and_then (run_query client (getCampaignComparison_query args))
         (\<lambda>response.
            let campaigns = map comparison_entry response
            in returns \<lparr>gcc_dateRange = cmpa_dateRange args,
                        gcc_sortedBy = cmpa_metric args,
                        gcc_totals = comparison_totals campaigns,
                        gcc_campaigns = campaigns\<rparr>))"

section \<open>Shopping tools\<close>

record 'n getTopBottomProducts_args =
  tp_metric :: metric
  tp_dateRange :: date_range
  tp_topCount :: 'n
  tp_bottomCount :: 'n
  tp_campaignId :: "string option"

text \<open>The \<open>switch\<close> of \<open>getTopBottomProducts\<close>.\<close>

fun products_orderByField :: "metric \<Rightarrow> string" where
  "products_orderByField CLICKS = ''metrics.clicks''"
| "products_orderByField CONVERSIONS = ''metrics.conversions''"
| "products_orderByField REVENUE = ''metrics.conversions_value''"
| "products_orderByField ROAS = ''metrics.conversions_value / NULLIF(metrics.cost_micros, 0)''"
| "products_orderByField CTR = ''metrics.ctr''"
| "products_orderByField CONVERSION_RATE = ''metrics.conversion_rate''"
| "products_orderByField _ = ''metrics.cost_micros''"

definition products_select :: string where
  "products_select =
     ''\<newline>''
     @ ''      SELECT \<newline>''
     @ ''        segments.product_item_id,\<newline>''
     @ ''        segments.product_title,\<newline>''
     @ ''        segments.product_brand,\<newline>''
     @ ''        campaign.name,\<newline>''
     @ ''        metrics.clicks,\<newline>''
     @ ''        metrics.impressions,\<newline>''
     @ ''        metrics.cost_micros,\<newline>''
     @ ''        metrics.conversions,\<newline>''
     @ ''        metrics.conversions_value,\<newline>''
     @ ''        metrics.ctr,\<newline>''
     @ ''        metrics.conversion_rate\<newline>''
     @ ''      FROM shopping_performance_view\<newline>''
     @ ''    ''"

definition products_baseQuery :: "'n getTopBottomProducts_args \<Rightarrow> string" where
  "products_baseQuery args =
    products_select
    @ (if truthy (tp_campaignId args)
       then '' WHERE campaign.id = '' @ interpolate (tp_campaignId args) else [])
    @ ('' DURING '' @ date_range_string (tp_dateRange args))"

definition products_topQuery :: "('n \<Rightarrow> string) \<Rightarrow> 'n getTopBottomProducts_args \<Rightarrow> string" where
  "products_topQuery toString args =
    products_baseQuery args
    @ ('' ORDER BY '' @ products_orderByField (tp_metric args) @ '' DESC LIMIT ''
       @ toString (tp_topCount args))"

definition products_bottomQuery :: "('n \<Rightarrow> string) \<Rightarrow> 'n getTopBottomProducts_args \<Rightarrow> string" where
  "products_bottomQuery toString args =
    products_baseQuery args
    @ ('' AND '' @ products_orderByField (tp_metric args) @ '' > 0 ORDER BY ''
       @ products_orderByField (tp_metric args) @ '' ASC LIMIT ''
       @ toString (tp_bottomCount args))"

text \<open>\<open>getTopBottomProducts\<close>, with the row formatter and \<open>toString\<close> as parameters.\<close>

definition getTopBottomProducts ::
  "('row \<Rightarrow> 'e) \<Rightarrow> ('n \<Rightarrow> string) \<Rightarrow> 'row client \<Rightarrow> 'n getTopBottomProducts_args
    \<Rightarrow> 'e top_bottom_result outcome" where
  "getTopBottomProducts formatProduct toString client args =
    rethrow_with ''Failed to get top/bottom products: ''
      (and_then (run_query client (products_topQuery toString args))
         (\<lambda>topResponse.
            and_then (run_query client (products_bottomQuery toString args))
              (\<lambda>bottomResponse.
                 returns \<lparr>tb_metric = tp_metric args,
                          tb_dateRange = tp_dateRange args,
                          tb_topPerformers = map formatProduct topResponse,
                          tb_bottomPerformers = map formatProduct bottomResponse\<rparr>)))"

section \<open>The dispatcher\<close>

text \<open>The arguments of a call as they arrive: a JSON value, or nothing
  (\<open>undefined\<close>, here \<open>None\<close>).\<close>

datatype json =
    JNull | JBoolean bool | JNumber rat | JString string
  | JArray "json list" | JObject "(string \<times> json) list"

text \<open>A property of an object; the last entry for a key is the one the object has.\<close>

definition property :: "string \<Rightarrow> (string \<times> json) list \<Rightarrow> json option" where
  "property k kvs = map_of (rev kvs) k"

text \<open>\<open>getAdGroupSchema.parse\<close>: an object with a string \<open>adGroupId\<close>; other keys are
  dropped. The text of the \<open>ZodError\<close> it throws otherwise is the library's, a
  function of the rejected input.\<close>

definition getAdGroupSchema_parse ::
  "(json option \<Rightarrow> string) \<Rightarrow> json option \<Rightarrow> exn + getAdGroup_args" where
  "getAdGroupSchema_parse zodMessage args =
    (case args of
       Some (JObject kvs) \<Rightarrow>
         (case property ''adGroupId'' kvs of
            Some (JString s) \<Rightarrow> Inr \<lparr>ga_adGroupId = s\<rparr>
          | _ \<Rightarrow> Inl (Error (zodMessage args)))
     | _ \<Rightarrow> Inl (Error (zodMessage args)))"

text \<open>\<open>z.enum(['ENABLED', 'PAUSED', 'REMOVED']).optional()\<close> and
  \<open>z.number().optional()\<close> on a property: \<open>None\<close> is an issue, \<open>Some None\<close> the absent
  property.\<close>

definition optional_status :: "json option \<Rightarrow> status option option" where
  "optional_status v =
    (case v of
       None \<Rightarrow> Some None
     | Some (JString s) \<Rightarrow>
         (if s = ''ENABLED'' then Some (Some ENABLED)
          else if s = ''PAUSED'' then Some (Some PAUSED)
          else if s = ''REMOVED'' then Some (Some REMOVED)
          else None)
     | _ \<Rightarrow> None)"

definition optional_number :: "json option \<Rightarrow> rat option option" where
  "optional_number v =
    (case v of None \<Rightarrow> Some None | Some (JNumber n) \<Rightarrow> Some (Some n) | _ \<Rightarrow> None)"

text \<open>\<open>updateKeywordSchema.parse\<close>.\<close>

definition updateKeywordSchema_parse ::
  "(json option \<Rightarrow> string) \<Rightarrow> json option \<Rightarrow> exn + updateKeyword_args" where
  "updateKeywordSchema_parse zodMessage args =
    (case args of
       Some (JObject kvs) \<Rightarrow>
         (case (property ''keywordId'' kvs, property ''adGroupId'' kvs,
                optional_status (property ''status'' kvs),
                optional_number (property ''cpcBidMicros'' kvs)) of
            (Some (JString k), Some (JString g), Some s, Some b) \<Rightarrow>
              Inr \<lparr>uk_keywordId = k, uk_adGroupId = g, uk_status = s, uk_cpcBidMicros = b\<rparr>
          | _ \<Rightarrow> Inl (Error (zodMessage args)))
     | _ \<Rightarrow> Inl (Error (zodMessage args)))"

text \<open>The tools the dispatcher's \<open>switch\<close> has a \<open>case\<close> for, in its order.\<close>

datatype tool =
    list_campaigns | create_campaign | update_campaign
  | add_keywords | add_negative_keywords | update_keyword
  | get_search_terms_report
  | list_ad_groups | create_ad_group | update_ad_group | get_ad_group
  | list_ads

text \<open>The name each tool is registered and dispatched under.\<close>

fun tool_name :: "tool \<Rightarrow> string" where
  "tool_name list_campaigns = ''list_campaigns''"
| "tool_name create_campaign = ''create_campaign''"
| "tool_name update_campaign = ''update_campaign''"
| "tool_name add_keywords = ''add_keywords''"
| "tool_name add_negative_keywords = ''add_negative_keywords''"
| "tool_name update_keyword = ''update_keyword''"
| "tool_name get_search_terms_report = ''get_search_terms_report''"
| "tool_name list_ad_groups = ''list_ad_groups''"
| "tool_name create_ad_group = ''create_ad_group''"
| "tool_name update_ad_group = ''update_ad_group''"
| "tool_name get_ad_group = ''get_ad_group''"
| "tool_name list_ads = ''list_ads''"

text \<open>The static registry: the names of the descriptors of \<open>workingTools\<close>, which is
  \<open>allTools\<close>, in order.\<close>

definition allTools :: "string list" where
  "allTools =
    [''list_campaigns'', ''create_campaign'', ''update_campaign'',
     ''list_ad_groups'', ''get_ad_group'', ''create_ad_group'', ''update_ad_group'',
     ''list_ads'',
     ''add_keywords'', ''add_negative_keywords'', ''update_keyword'',
     ''get_search_terms_report'']"

text \<open>The \<open>case\<close> labels of the \<open>switch\<close>.\<close>

definition resolve :: "string \<Rightarrow> tool option" where
  "resolve name =
    (if name = ''list_campaigns'' then Some list_campaigns
     else if name = ''create_campaign'' then Some create_campaign
     else if name = ''update_campaign'' then Some update_campaign
     else if name = ''add_keywords'' then Some add_keywords
     else if name = ''add_negative_keywords'' then Some add_negative_keywords
     else if name = ''update_keyword'' then Some update_keyword
     else if name = ''get_search_terms_report'' then Some get_search_terms_report
     else if name = ''list_ad_groups'' then Some list_ad_groups
     else if name = ''create_ad_group'' then Some create_ad_group
     else if name = ''update_ad_group'' then Some update_ad_group
     else if name = ''get_ad_group'' then Some get_ad_group
     else if name = ''list_ads'' then Some list_ads
     else None)"

text \<open>The success envelope: \<open>{ content: [{ type: 'text', text: ... }] }\<close>.\<close>

datatype content = TextContent string

text \<open>The \<open>catch\<close> clause of the request handler.\<close>

definition catch_clause :: "exn \<Rightarrow> exn" where
  "catch_clause error =
    (case error of
       McpError c m \<Rightarrow> error
     | Error m \<Rightarrow> McpError InternalError (''Tool execution failed: '' @ m)
     | Thrown x \<Rightarrow>
         McpError InternalError (''Tool execution failed: '' @ ''Unknown error occurred''))"

text \<open>The handler of \<open>CallToolRequestSchema\<close>. Each \<open>case\<close> of the \<open>switch\<close> parses the
  arguments with the tool's schema, awaits the tool's function on the parsed arguments
  and wraps the printed result; \<open>default\<close> throws. All of it stands inside the \<open>try\<close>.
  The schemas (\<open>parse\<close>), the tools' functions (\<open>handler\<close>) and \<open>JSON.stringify\<close> are
  parameters: the dispatcher treats them alike.\<close>

definition callTool ::
  "(tool \<Rightarrow> 'j \<Rightarrow> exn + 'a) \<Rightarrow> (tool \<Rightarrow> 'a \<Rightarrow> 'r outcome) \<Rightarrow> ('r \<Rightarrow> string)
    \<Rightarrow> string \<Rightarrow> 'j \<Rightarrow> content list outcome" where
  "callTool parse handler stringify name args =
    (let body =
       (case resolve name of
          None \<Rightarrow> ([], Inl (McpError MethodNotFound (''Unknown tool: '' @ name)))
        | Some t \<Rightarrow>
            and_then ([], parse t args)
              (\<lambda>parsed. and_then (handler t parsed)
                 (\<lambda>result. returns [TextContent (stringify result)])))
     in case snd body of
          Inl error \<Rightarrow> (fst body, Inl (catch_clause error))
        | Inr envelope \<Rightarrow> body)"

section \<open>Sample values\<close>

text \<open>A client whose queries find nothing and whose mutations succeed, and one whose
  keyword update is rejected with a failure object that is no \<open>Error\<close>.\<close>

definition sample_client :: "row client" where
  "sample_client =
    \<lparr>customer_id = ''1234567890'',
     query = (\<lambda>q. Inr []),
     adGroupCriteria_create = (\<lambda>ops. Inr (map agc_ad_group ops)),
     campaignCriteria_create = (\<lambda>ops. Inr (map cc_campaign ops)),
     adGroupCriteria_update = (\<lambda>u. Inr ()),
     mutateAdGroups = (\<lambda>cid ops. Inr (map (\<lambda>x. ru_resource_name (op_update x)) ops)),
     campaignBudgets_create = (\<lambda>b. Inr ''customers/1234567890/campaignBudgets/1''),
     campaigns_create = (\<lambda>c. Inr (''1'', ''customers/1234567890/campaigns/1'')),
     campaignBudgets_update = (\<lambda>u. Inr ()),
     campaigns_update = (\<lambda>u. Inr ())\<rparr>"

definition quota_client :: "row client" where
  "quota_client =
     sample_client\<lparr>adGroupCriteria_update := (\<lambda>u. Inl (Thrown (Some ''Quota exhausted'')))\<rparr>"

text \<open>A stand-in for the library's rendering of a \<open>ZodError\<close>, and one for
  \<open>JSON.stringify\<close>.\<close>

definition sample_zodMessage :: "json option \<Rightarrow> string" where
  "sample_zodMessage args = ''Required''"

definition sample_stringify :: "'r \<Rightarrow> string" where
  "sample_stringify r = ''{}''"

text \<open>The dispatcher's parameters for calls of \<open>get_ad_group\<close> and of \<open>update_keyword\<close>:
  the schema and the function of the tool.\<close>

definition get_ad_group_parse :: "tool \<Rightarrow> json option \<Rightarrow> exn + getAdGroup_args" where
  "get_ad_group_parse t = getAdGroupSchema_parse sample_zodMessage"

definition get_ad_group_handler ::
  "row client \<Rightarrow> tool \<Rightarrow> getAdGroup_args \<Rightarrow> getAdGroup_result outcome" where
  "get_ad_group_handler client t = getAdGroup client"

definition update_keyword_parse :: "tool \<Rightarrow> json option \<Rightarrow> exn + updateKeyword_args" where
  "update_keyword_parse t = updateKeywordSchema_parse sample_zodMessage"

definition update_keyword_handler ::
  "row client \<Rightarrow> tool \<Rightarrow> updateKeyword_args \<Rightarrow> updateKeyword_result outcome" where
  "update_keyword_handler customer t = updateKeyword customer"

definition status_only :: json where
  "status_only =
    JObject [(''keywordId'', JString ''789''), (''adGroupId'', JString ''456''),
             (''status'', JString ''PAUSED'')]"

text \<open>Arguments and rows used as examples.\<close>

definition both_levels :: addNegativeKeywords_args where
  "both_levels =
    \<lparr>ank_campaignId = Some ''123'', ank_adGroupId = Some ''456'',
     ank_keywords = [\<lparr>nk_text = ''free'', nk_matchType = BROAD\<rparr>]\<rparr>"

definition empty_adGroupId :: addNegativeKeywords_args where
  "empty_adGroupId = both_levels\<lparr>ank_adGroupId := Some []\<rparr>"

definition pause_keyword :: updateKeyword_args where
  "pause_keyword =
    \<lparr>uk_keywordId = ''789'', uk_adGroupId = ''456'', uk_status = Some PAUSED,
     uk_cpcBidMicros = None\<rparr>"

definition pause_ad_group :: updateAdGroup_args where
  "pause_ad_group =
    \<lparr>ua_adGroupId = ''456'', ua_name = None, ua_status = Some PAUSED,
     ua_cpcBidMicros = None, ua_cpmBidMicros = None, ua_targetCpaMicros = None,
     ua_targetRoas = None\<rparr>"

definition ad_group_456 :: json where
  "ad_group_456 = JObject [(''adGroupId'', JString ''456'')]"

definition custom_without_range :: getSearchTermsReport_args where
  "custom_without_range =
    \<lparr>st_campaignId = None, st_adGroupId = None, st_dateRange = CUSTOM,
     st_customDateRange = None, st_limit = 100, st_minImpressions = 10\<rparr>"

definition custom_campaigns_without_range :: listCampaigns_args where
  "custom_campaigns_without_range =
    \<lparr>lc_limit = 50, lc_includeRemoved = False, lc_dateRange = CUSTOM,
     lc_customDateRange = None\<rparr>"

definition whole_row :: "'row \<Rightarrow> exn + 'row" where
  "whole_row r = Inr r"

definition spring_sale :: createCampaign_args where
  "spring_sale =
    \<lparr>cr_name = ''Spring sale'', cr_budget = Finite 12.5, cr_advertisingChannelType = SEARCH,
     cr_status = PAUSED\<rparr>"

text \<open>A campaign whose budget the caller wrote as 2.01.\<close>

definition winter_sale :: createCampaign_args where
  "winter_sale =
    \<lparr>cr_name = ''Winter sale'', cr_budget = round_to_double (201 / 100),
     cr_advertisingChannelType = SEARCH, cr_status = PAUSED\<rparr>"

definition new_budget :: updateCampaign_args where
  "new_budget =
    \<lparr>uc_campaignId = ''42'', uc_name = None, uc_status = None, uc_budget = Some (Finite 12.5)\<rparr>"

definition budget_row :: row where
  "budget_row =
    \<lparr>r_ad_group = None, r_campaign = None,
     r_campaign_budget =
       Some \<lparr>cb_amount_micros = None,
             cb_resource_name = Some ''customers/1234567890/campaignBudgets/7''\<rparr>,
     r_metrics = None\<rparr>"

definition budget_amount_row :: row where
  "budget_amount_row =
    \<lparr>r_ad_group = None, r_campaign = None,
     r_campaign_budget = Some \<lparr>cb_amount_micros = Some 2500000, cb_resource_name = None\<rparr>,
     r_metrics = None\<rparr>"

definition budget_client :: "row client" where
  "budget_client = sample_client\<lparr>query := (\<lambda>q. Inr [budget_row])\<rparr>"

definition bid_row :: row where
  "bid_row =
    \<lparr>r_ad_group =
       Some \<lparr>ag_id = Some ''456'', ag_name = Some ''Shoes'', ag_status = Some ''ENABLED'',
             ag_cpc_bid_micros = Some 2500000, ag_cpm_bid_micros = None,
             ag_target_cpa_micros = None, ag_target_roas = None,
             ag_effective_target_cpa_micros = None, ag_effective_target_roas = None\<rparr>,
     r_campaign = None, r_campaign_budget = None, r_metrics = None\<rparr>"

definition bid_client :: "row client" where
  "bid_client = sample_client\<lparr>query := (\<lambda>q. Inr [bid_row])\<rparr>"

definition campaign_row :: "rat \<Rightarrow> rat option \<Rightarrow> row" where
  "campaign_row cost revenue =
    \<lparr>r_ad_group = None, r_campaign = None, r_campaign_budget = None,
     r_metrics =
       Some \<lparr>m_clicks = None, m_impressions = None, m_cost_micros = Some cost,
             m_conversions = None, m_conversions_value = revenue, m_ctr = None,
             m_conversion_rate = None, m_search_impression_share = None,
             m_search_rank_lost_impression_share = None,
             m_search_budget_lost_impression_share = None\<rparr>\<rparr>"

definition two_campaigns :: "row list" where
  "two_campaigns = [campaign_row 1000000 (Some 4000000), campaign_row 3000000 None]"

definition two_campaigns_client :: "row client" where
  "two_campaigns_client = sample_client\<lparr>query := (\<lambda>q. Inr two_campaigns)\<rparr>"

definition by_cost :: getCampaignComparison_args where
  "by_cost = \<lparr>cmpa_dateRange = LAST_30_DAYS, cmpa_metric = COST, cmpa_includeRemoved = False\<rparr>"

definition by_clicks :: "int getTopBottomKeywords_args" where
  "by_clicks =
    \<lparr>tk_metric = CLICKS, tk_dateRange = LAST_30_DAYS, tk_topCount = 3, tk_bottomCount = 3,
     tk_campaignId = None, tk_adGroupId = None, tk_includeNegative = False\<rparr>"

definition by_quality_score :: "int getTopBottomKeywords_args" where
  "by_quality_score = by_clicks\<lparr>tk_metric := QUALITY_SCORE\<rparr>"

definition products_by_revenue :: "int getTopBottomProducts_args" where
  "products_by_revenue =
    \<lparr>tp_metric = REVENUE, tp_dateRange = LAST_30_DAYS, tp_topCount = 3, tp_bottomCount = 3,
     tp_campaignId = Some ''123''\<rparr>"

section \<open>Auxiliary facts\<close>

lemma fst_and_then:
  "fst (and_then m f) = (case snd m of Inl e \<Rightarrow> fst m | Inr a \<Rightarrow> fst m @ fst (f a))"
  by (simp add: and_then_def split: sum.split)

lemma fst_returns [simp]: "fst (returns a) = []"
  by (simp add: returns_def)

lemma sublist_in_middle:
  assumes "sublist x w"
  shows "sublist x (a @ w @ b)"
proof -
  from assms obtain ps ss where "w = ps @ x @ ss"
    by (auto simp add: sublist_def)
  then have "a @ w @ b = (a @ ps) @ x @ (ss @ b)"
    by simp
  then show ?thesis
    unfolding sublist_def by blast
qed

lemma sublist_at_back: "sublist x w \<Longrightarrow> sublist x (a @ w)"
  using sublist_in_middle [of x w a "[]"] by simp

lemma join_Cons: "zs \<noteq> [] \<Longrightarrow> join sep (y # zs) = y @ sep @ join sep zs"
  by (cases zs) simp_all

lemma join_last: "sublist x (join sep (xs @ [x]))"
proof (induction xs)
  case Nil
  then show ?case by simp
next
  case (Cons y ys)
  have "join sep ((y # ys) @ [x]) = y @ sep @ join sep (ys @ [x])"
    by (simp add: join_Cons)
  with Cons show ?case
    by (simp add: sublist_at_back del: append.simps)
qed

declare digits.simps [simp del]

lemma digit_not_gt: "(k::nat) < 10 \<Longrightarrow> char_of (48 + k) \<noteq> CHR ''>''"
proof
  assume k: "k < 10" and "char_of (48 + k) = CHR ''>''"
  then have "of_char (char_of (48 + k)) = (of_char (CHR ''>'') :: nat)"
    by simp
  with k show False
    by simp
qed

lemma digits_no_gt: "CHR ''>'' \<notin> set (digits n)"
proof (induction n rule: digits.induct)
  case (1 n)
  show ?case
  proof (cases "n < 10")
    case True
    then show ?thesis
      using digit_not_gt [of n] by (subst digits.simps) auto
  next
    case False
    then show ?thesis
      using 1 digit_not_gt [of "n mod 10"] by (subst digits.simps) auto
  qed
qed

lemma number_string_no_gt: "CHR ''>'' \<notin> set (number_string i)"
  by (simp add: number_string_def digits_no_gt)

lemma number_string_3: "number_string 3 = ''3''"
  by code_simp

lemma resolve_Some: "resolve name = Some t \<Longrightarrow> name = tool_name t"
  by (auto simp add: resolve_def split: if_splits)

lemma resolve_None: "resolve name = None \<longleftrightarrow> name \<notin> set allTools"
  by (auto simp add: resolve_def allTools_def split: if_splits)

lemma set_field_paths:
  "snd (set_field p v st) = snd st @ (if v = None then [] else [p])"
  "map fst (fst (set_field p v st)) = map fst (fst st) @ (if v = None then [] else [p])"
  by (cases v; simp add: set_field_def)+

lemma updateAdGroup_calls:
  "fst (updateAdGroup client args)
    = [MutateAdGroups (customer_id client)
        [\<lparr>op_update =
            \<lparr>ru_resource_name = ''customers/'' @ customer_id client @ ''/adGroups/''
                                  @ ua_adGroupId args,
             ru_fields = fst
               (set_field ''target_roas'' (map_option NumberValue (ua_targetRoas args))
               (set_field ''target_cpa_micros'' (map_option NumberValue (ua_targetCpaMicros args))
               (set_field ''cpm_bid_micros'' (map_option NumberValue (ua_cpmBidMicros args))
               (set_field ''cpc_bid_micros'' (map_option NumberValue (ua_cpcBidMicros args))
               (set_field ''status'' (map_option StatusValue (ua_status args))
               (set_field ''name'' (map_option StringValue (ua_name args)) ([], [])))))))\<rparr>,
          op_update_mask_paths = snd
               (set_field ''target_roas'' (map_option NumberValue (ua_targetRoas args))
               (set_field ''target_cpa_micros'' (map_option NumberValue (ua_targetCpaMicros args))
               (set_field ''cpm_bid_micros'' (map_option NumberValue (ua_cpmBidMicros args))
               (set_field ''cpc_bid_micros'' (map_option NumberValue (ua_cpcBidMicros args))
               (set_field ''status'' (map_option StatusValue (ua_status args))
               (set_field ''name'' (map_option StringValue (ua_name args)) ([], [])))))))\<rparr>]]"
  unfolding updateAdGroup_def Let_def rethrow_with_def and_then_def returns_def
  by (simp split: sum.split)

lemma updateKeyword_calls:
  "fst (updateKeyword customer params)
    = [AdGroupCriteriaUpdate
        \<lparr>ru_resource_name = ''customers/'' @ customer_id customer @ ''/adGroupCriteria/''
                              @ uk_adGroupId params @ ''~'' @ uk_keywordId params,
         ru_fields =
           (case uk_status params of None \<Rightarrow> []
            | Some s \<Rightarrow> [(''status'', StatusValue s)])
           @ (case uk_cpcBidMicros params of None \<Rightarrow> []
              | Some b \<Rightarrow> [(''cpc_bid_micros'', NumberValue b)])\<rparr>]"
  by (simp add: updateKeyword_def Let_def split: sum.split)

lemma getSearchTermsReport_calls:
  "fst (getSearchTermsReport entry customer params) = [Query (getSearchTermsReport_query params)]"
  by (simp add: getSearchTermsReport_def and_then_def run_query_def split: sum.split)

lemma listCampaigns_calls:
  "fst (listCampaigns entry customer params) = [Query (listCampaigns_query params)]"
  by (simp add: listCampaigns_def and_then_def run_query_def split: sum.split)

lemma updateCampaign_budget_found:
  assumes "uc_budget params = Some b"
    and "query customer (updateCampaign_campaignQuery params) = Inr (r # rest)"
    and "Option.bind (r_campaign_budget r) cb_resource_name = Some name"
    and "name \<noteq> []"
  shows "fst (updateCampaign_budget customer params)
          = [Query (updateCampaign_campaignQuery params),
             CampaignBudgetsUpdate
               \<lparr>bu_resource_name = name, bu_amount_micros = times_1000000 b\<rparr>]"
  using assms
  by (simp add: updateCampaign_budget_def fst_and_then run_query_def Let_def)

lemma updateCampaign_budget_calls:
  "CampaignBudgetsUpdate u \<in> set (fst (updateCampaign_budget customer params))
    \<Longrightarrow> \<exists>b. uc_budget params = Some b \<and> bu_amount_micros u = times_1000000 b"
  by (auto simp add: updateCampaign_budget_def fst_and_then run_query_def Let_def
      split: option.splits sum.splits list.splits if_splits)

lemma updateCampaign_calls:
  "CampaignBudgetsUpdate u \<in> set (fst (updateCampaign customer params))
    \<Longrightarrow> CampaignBudgetsUpdate u \<in> set (fst (updateCampaign_budget customer params))"
  by (auto simp add: updateCampaign_def fst_and_then Let_def
      split: option.splits sum.splits list.splits if_splits)

lemma updateCampaign_budget_sent:
  "CampaignBudgetsUpdate u \<in> set (fst (updateCampaign_budget customer params))
    \<Longrightarrow> CampaignBudgetsUpdate u \<in> set (fst (updateCampaign customer params))"
  by (simp add: updateCampaign_def Let_def fst_and_then split: sum.split)

declare bit_length.simps [simp del]

lemma bit_length_0 [simp]: "bit_length 0 = 0"
  by (simp add: bit_length.simps)

lemma bit_length_1 [simp]: "bit_length 1 = Suc 0"
  by (simp add: bit_length.simps)

lemma bit_length_numeral [simp]:
  "bit_length (numeral k) = Suc (bit_length (numeral k div 2))"
  by (subst bit_length.simps) simp

lemma bit_length_le: "n < 2 ^ k \<Longrightarrow> bit_length n \<le> k"
proof (induction k arbitrary: n)
  case 0
  then show ?case by (simp add: bit_length.simps)
next
  case (Suc k)
  have "n div 2 < 2 ^ k" using Suc.prems by simp
  then have "bit_length (n div 2) \<le> k" by (rule Suc.IH)
  then show ?case by (subst bit_length.simps) simp
qed

lemma floor_numeral_quotient:
  "\<lfloor>numeral a / numeral b :: rat\<rfloor> = numeral a div numeral b"
  using floor_divide_of_int_eq [of "numeral a" "numeral b", where ?'a = rat] by simp

lemma round_half_even_of_int: "round_half_even (of_int m) = m"
  by (simp add: round_half_even_def)

lemma round_to_double_at:
  assumes "x \<noteq> 0"
    and "floor_log2 \<bar>x\<bar> = k"
    and "pow2 (max (k - 52) (- 1074)) = u"
    and "round_half_even (x / u) = n"
    and "of_int n * u = r"
    and "r < 2 ^ 1024" and "- (2 ^ 1024) < r"
  shows "round_to_double x = Finite r"
  using assms by (simp add: round_to_double_def Let_def)

text \<open>An integer of magnitude below \<open>2^53\<close> is a binary64 number.\<close>

lemma round_to_double_of_int:
  assumes "\<bar>n\<bar> < 2 ^ 53"
  shows "round_to_double (of_int n) = Finite (of_int n)"
proof (cases "n = 0")
  case True
  then show ?thesis by (simp add: round_to_double_def)
next
  case False
  have b: "bit_length \<bar>n\<bar> \<le> 53" using assms by (rule bit_length_le)
  have one: "(1::rat) \<le> \<bar>of_int n\<bar>" using False
    by (metis of_int_abs of_int_1_le_iff zero_less_abs_iff int_one_le_iff_zero_less)
  have k: "floor_log2 \<bar>of_int n\<bar> = int (bit_length \<bar>n\<bar>) - 1"
    using one by (simp add: floor_log2_def flip: of_int_abs)
  have e: "max (int (bit_length \<bar>n\<bar>) - 1 - 52) (- 1074) \<le> 0"
    using b by simp
  define i where "i = nat (- max (int (bit_length \<bar>n\<bar>) - 1 - 52) (- 1074))"
  have u: "pow2 (max (int (bit_length \<bar>n\<bar>) - 1 - 52) (- 1074)) = 1 / 2 ^ i"
    using e by (auto simp add: pow2_def i_def)
  have q: "(of_int n :: rat) / (1 / 2 ^ i) = of_int (n * 2 ^ i)"
    by simp
  have r: "round_half_even (of_int n / (1 / 2 ^ i)) = n * 2 ^ i"
    unfolding q by (rule round_half_even_of_int)
  have v: "(of_int (n * 2 ^ i) :: rat) * (1 / 2 ^ i) = of_int n"
    by simp
  have "\<bar>of_int n :: rat\<bar> < 2 ^ 53"
    using assms by (metis of_int_abs of_int_less_iff of_int_numeral of_int_power)
  moreover have "(2::rat) ^ 53 < 2 ^ 1024"
    by (rule power_strict_increasing) simp_all
  ultimately have bound: "(of_int n :: rat) < 2 ^ 1024" "- (2 ^ 1024) < (of_int n :: rat)"
    by linarith+
  show ?thesis
    using False k u r v bound
    by (intro round_to_double_at [where k = "int (bit_length \<bar>n\<bar>) - 1"
          and u = "1 / 2 ^ i" and n = "n * 2 ^ i"]) simp_all
qed

lemma times_1000000_exact:
  assumes "b * 1000000 = of_int n" and "\<bar>n\<bar> < 2 ^ 53"
  shows "times_1000000 (Finite b) = Finite (of_int n)"
  using assms round_to_double_of_int [of n] by simp

text \<open>The decimal 2.01 is read as the binary64 number
  2.00999999999999978683717927196994423866271972656250. Its product with 1,000,000 is
  rounded to 2009999.99999999976716935634613037109375, which the language prints as
  \<open>2009999.9999999998\<close>: this is the amount that \<open>createCampaign\<close> sends for it.\<close>

lemma round_to_double_2_01:
  "round_to_double (201 / 100) = Finite (1131529406376837 / 562949953421312)"
proof (rule round_to_double_at)
  show "(201 / 100 :: rat) \<noteq> 0" by simp
  show "floor_log2 \<bar>201 / 100\<bar> = 1"
    by (simp add: floor_log2_def floor_numeral_quotient)
  show "pow2 (max (1 - 52) (- 1074)) = 1 / 2251799813685248"
    by (simp add: pow2_def)
  show "round_half_even (201 / 100 / (1 / 2251799813685248)) = 4526117625507348"
    by (simp add: round_half_even_def Let_def floor_numeral_quotient)
  show "rat_of_int 4526117625507348 * (1 / 2251799813685248)
          = 1131529406376837 / 562949953421312"
    by simp
  show "(1131529406376837 / 562949953421312 :: rat) < 2 ^ 1024" by simp
  show "- (2 ^ 1024) < (1131529406376837 / 562949953421312 :: rat)" by simp
qed

lemma times_1000000_2_01:
  "times_1000000 (Finite (1131529406376837 / 562949953421312))
     = Finite (8632884264959999 / 4294967296)"
proof -
  have "round_to_double (1131529406376837 / 562949953421312 * 1000000)
          = Finite (8632884264959999 / 4294967296)"
  proof (rule round_to_double_at)
    show "(1131529406376837 / 562949953421312 * 1000000 :: rat) \<noteq> 0" by simp
    show "floor_log2 \<bar>1131529406376837 / 562949953421312 * 1000000\<bar> = 20"
      by (simp add: floor_log2_def floor_numeral_quotient)
    show "pow2 (max (20 - 52) (- 1074)) = 1 / 4294967296"
      by (simp add: pow2_def)
    show "round_half_even (1131529406376837 / 562949953421312 * 1000000 / (1 / 4294967296))
            = 8632884264959999"
      by (simp add: round_half_even_def Let_def floor_numeral_quotient)
    show "rat_of_int 8632884264959999 * (1 / 4294967296) = 8632884264959999 / 4294967296"
      by simp
    show "(8632884264959999 / 4294967296 :: rat) < 2 ^ 1024" by simp
    show "- (2 ^ 1024) < (8632884264959999 / 4294967296 :: rat)" by simp
  qed
  then show ?thesis by (simp only: times_1000000.simps)
qed

lemma createCampaign_winter_sale:
  "fst (createCampaign sample_client winter_sale)
     = [CampaignBudgetsCreate
          \<lparr>bc_name = ''Budget for Winter sale'',
           bc_amount_micros = Finite (8632884264959999 / 4294967296),
           bc_delivery_method = ''STANDARD''\<rparr>,
        CampaignsCreate
          \<lparr>cmp_name = ''Winter sale'', cmp_status = PAUSED,
           cmp_advertising_channel_type = SEARCH,
           cmp_campaign_budget = ''customers/1234567890/campaignBudgets/1''\<rparr>]
   \<and> (8632884264959999 / 4294967296 :: rat) \<noteq> 2010000"
  by (simp add: winter_sale_def sample_client_def createCampaign_def fst_and_then Let_def
      round_to_double_2_01 times_1000000_2_01 del: times_1000000.simps)

lemma foldl_add_campaign:
  "foldl add_campaign acc cs =
    \<lparr>s_clicks = s_clicks acc + (\<Sum>c\<leftarrow>cs. cm_clicks (ce_metrics c)),
     s_impressions = s_impressions acc + (\<Sum>c\<leftarrow>cs. cm_impressions (ce_metrics c)),
     s_cost = s_cost acc + (\<Sum>c\<leftarrow>cs. cm_cost (ce_metrics c)),
     s_conversions = s_conversions acc + (\<Sum>c\<leftarrow>cs. cm_conversions (ce_metrics c)),
     s_revenue = s_revenue acc + (\<Sum>c\<leftarrow>cs. cm_revenue (ce_metrics c))\<rparr>"
  by (induction cs arbitrary: acc) (simp_all add: add_campaign_def add.assoc)

lemma keywords_calls:
  "query client (keywords_topQuery toString args) = Inr rows \<Longrightarrow>
   fst (getTopBottomKeywords fmt toString client args)
     = [Query (keywords_topQuery toString args), Query (keywords_bottomQuery toString args)]"
  by (simp add: getTopBottomKeywords_def rethrow_with_def and_then_def run_query_def
      returns_def split: sum.split)

lemma products_calls:
  "query client (products_topQuery toString args) = Inr rows \<Longrightarrow>
   fst (getTopBottomProducts fmt toString client args)
     = [Query (products_topQuery toString args), Query (products_bottomQuery toString args)]"
  by (simp add: getTopBottomProducts_def rethrow_with_def and_then_def run_query_def
      returns_def split: sum.split)

lemma get_ad_group_parse_456:
  "get_ad_group_parse get_ad_group (Some ad_group_456) = Inr \<lparr>ga_adGroupId = ''456''\<rparr>"
  by (simp add: get_ad_group_parse_def getAdGroupSchema_parse_def ad_group_456_def
      property_def)

lemma get_ad_group_parse_empty:
  "get_ad_group_parse get_ad_group (Some (JObject [])) = Inl (Error ''Required'')"
  by (simp add: get_ad_group_parse_def getAdGroupSchema_parse_def property_def
      sample_zodMessage_def)

lemma update_keyword_parse_status_only:
  "update_keyword_parse update_keyword (Some status_only) = Inr pause_keyword"
  by (simp add: update_keyword_parse_def updateKeywordSchema_parse_def status_only_def
      property_def optional_status_def optional_number_def pause_keyword_def)

section \<open>Micros\<close>

text \<open>
  C1, as the claim states it, fails for the micros that \<open>get_ad_group\<close> returns: a CPC
  bid of 2500000 micros in the row is 2500000 in the caller-facing result, not 2.5.
\<close>

theorem getAdGroup_returns_micros:
  "query bid_client (getAdGroup_query \<lparr>ga_adGroupId = ''456''\<rparr>) = Inr [bid_row]
   \<and> Option.bind (r_ad_group bid_row) ag_cpc_bid_micros = Some 2500000
   \<and> snd (getAdGroup bid_client \<lparr>ga_adGroupId = ''456''\<rparr>)
       = Inr \<lparr>gar_id = Some ''456'', gar_name = Some ''Shoes'', gar_status = Some ''ENABLED'',
              gar_campaignId = None, gar_campaignName = None,
              gar_cpcBidMicros = Some 2500000, gar_cpmBidMicros = None,
              gar_targetCpaMicros = None, gar_targetRoas = None,
              gar_effectiveTargetCpaMicros = None, gar_effectiveTargetRoas = None\<rparr>"
  by (simp add: bid_client_def bid_row_def getAdGroup_def rethrow_with_def and_then_def
      run_query_def returns_def)

text \<open>
  C1, amended. The budget is the number the tool receives. When that number times
  1,000,000 is a whole number of magnitude below \<open>2^53\<close>, the first call of
  \<open>create_campaign\<close> creates the budget with exactly that whole number as
  \<open>amount_micros\<close>, and every budget update that \<open>update_campaign\<close> sends carries exactly
  that whole number; it sends one when the campaign's budget resource is found. Where a
  normalizer converts with \<open>microsToNumber\<close>, a micros value \<open>m\<close> becomes \<open>m / 1,000,000\<close>:
  so the cost and the daily budget of a campaign-comparison entry. The bid that
  \<open>get_ad_group\<close> returns as \<open>cpcBidMicros\<close> is the row's micros value, unchanged.
\<close>

theorem micros_conversion:
  "(cr_budget cparams = Finite b \<and> b * 1000000 = of_int n \<and> \<bar>n\<bar> < 2 ^ 53 \<longrightarrow>
      (\<exists>rest. fst (createCampaign customer cparams)
         = CampaignBudgetsCreate
             \<lparr>bc_name = ''Budget for '' @ cr_name cparams,
              bc_amount_micros = Finite (of_int n),
              bc_delivery_method = ''STANDARD''\<rparr> # rest))
   \<and> (uc_budget uparams = Some (Finite ub) \<and> ub * 1000000 = of_int un \<and> \<bar>un\<bar> < 2 ^ 53
        \<and> query ucustomer (updateCampaign_campaignQuery uparams) = Inr (r # others)
        \<and> Option.bind (r_campaign_budget r) cb_resource_name = Some name \<and> name \<noteq> []
        \<longrightarrow> CampaignBudgetsUpdate
              \<lparr>bu_resource_name = name, bu_amount_micros = Finite (of_int un)\<rparr>
              \<in> set (fst (updateCampaign ucustomer uparams)))
   \<and> (uc_budget uparams = Some (Finite ub) \<and> ub * 1000000 = of_int un \<and> \<bar>un\<bar> < 2 ^ 53
        \<and> CampaignBudgetsUpdate u \<in> set (fst (updateCampaign ucustomer uparams))
        \<longrightarrow> bu_amount_micros u = Finite (of_int un))
   \<and> microsToNumber (Some m) = Some (m / 1000000)
   \<and> (Option.bind (r_metrics crow) m_cost_micros = Some cm \<longrightarrow>
        cm_cost (ce_metrics (comparison_entry crow)) = cm / 1000000)
   \<and> (Option.bind (r_campaign_budget brow) cb_amount_micros = Some bm \<longrightarrow>
        ce_dailyBudget (comparison_entry brow) = bm / 1000000)
   \<and> (query client (getAdGroup_query args) = Inr (grow # remaining) \<longrightarrow>
        (\<exists>found. snd (getAdGroup client args) = Inr found
           \<and> gar_cpcBidMicros found = Option.bind (r_ad_group grow) ag_cpc_bid_micros))"
proof (intro conjI impI)
  assume a: "cr_budget cparams = Finite b \<and> b * 1000000 = of_int n \<and> \<bar>n\<bar> < 2 ^ 53"
  then have "times_1000000 (cr_budget cparams) = Finite (of_int n)"
    using times_1000000_exact [of b n] by simp
  then show "\<exists>rest. fst (createCampaign customer cparams)
         = CampaignBudgetsCreate
             \<lparr>bc_name = ''Budget for '' @ cr_name cparams,
              bc_amount_micros = Finite (of_int n),
              bc_delivery_method = ''STANDARD''\<rparr> # rest"
    by (simp add: createCampaign_def Let_def fst_and_then split: sum.split)
next
  assume a: "uc_budget uparams = Some (Finite ub) \<and> ub * 1000000 = of_int un \<and> \<bar>un\<bar> < 2 ^ 53
        \<and> query ucustomer (updateCampaign_campaignQuery uparams) = Inr (r # others)
        \<and> Option.bind (r_campaign_budget r) cb_resource_name = Some name \<and> name \<noteq> []"
  then have t: "times_1000000 (Finite ub) = Finite (of_int un)"
    using times_1000000_exact [of ub un] by simp
  from a have f: "fst (updateCampaign_budget ucustomer uparams)
          = [Query (updateCampaign_campaignQuery uparams),
             CampaignBudgetsUpdate
               \<lparr>bu_resource_name = name, bu_amount_micros = times_1000000 (Finite ub)\<rparr>]"
    using updateCampaign_budget_found [of uparams "Finite ub" ucustomer r others name] by blast
  have "CampaignBudgetsUpdate
               \<lparr>bu_resource_name = name, bu_amount_micros = Finite (of_int un)\<rparr>
             \<in> set (fst (updateCampaign_budget ucustomer uparams))"
    unfolding f t by simp
  then show "CampaignBudgetsUpdate
               \<lparr>bu_resource_name = name, bu_amount_micros = Finite (of_int un)\<rparr>
              \<in> set (fst (updateCampaign ucustomer uparams))"
    by (rule updateCampaign_budget_sent)
next
  assume a: "uc_budget uparams = Some (Finite ub) \<and> ub * 1000000 = of_int un \<and> \<bar>un\<bar> < 2 ^ 53
        \<and> CampaignBudgetsUpdate u \<in> set (fst (updateCampaign ucustomer uparams))"
  then have t: "times_1000000 (Finite ub) = Finite (of_int un)"
    using times_1000000_exact [of ub un] by simp
  from a have "CampaignBudgetsUpdate u \<in> set (fst (updateCampaign_budget ucustomer uparams))"
    by (intro updateCampaign_calls) simp
  then have "\<exists>b. uc_budget uparams = Some b \<and> bu_amount_micros u = times_1000000 b"
    by (rule updateCampaign_budget_calls)
  with a have "bu_amount_micros u = times_1000000 (Finite ub)"
    by auto
  then show "bu_amount_micros u = Finite (of_int un)"
    unfolding t .
next
  show "microsToNumber (Some m) = Some (m / 1000000)"
    by (simp add: microsToNumber_def)
next
  assume "Option.bind (r_metrics crow) m_cost_micros = Some cm"
  then show "cm_cost (ce_metrics (comparison_entry crow)) = cm / 1000000"
    by (simp add: comparison_entry_def Let_def microsToNumber_def or_zero_def)
next
  assume "Option.bind (r_campaign_budget brow) cb_amount_micros = Some bm"
  then show "ce_dailyBudget (comparison_entry brow) = bm / 1000000"
    by (simp add: comparison_entry_def Let_def microsToNumber_def or_zero_def)
next
  assume "query client (getAdGroup_query args) = Inr (grow # remaining)"
  then show "\<exists>found. snd (getAdGroup client args) = Inr found
           \<and> gar_cpcBidMicros found = Option.bind (r_ad_group grow) ag_cpc_bid_micros"
    by (simp add: getAdGroup_def rethrow_with_def and_then_def run_query_def returns_def)
qed

text \<open>A budget of 12.50 is sent as 12500000 micros, by both tools; 2500000 micros of cost
  or of daily budget are returned as 2.5, and a bid of 2500000 micros as 2500000.\<close>

theorem micros_conversion_witness:
  "cr_budget spring_sale = Finite 12.5
   \<and> (12.5 :: rat) * 1000000 = of_int 12500000
   \<and> \<bar>12500000 :: int\<bar> < 2 ^ 53
   \<and> hd (fst (createCampaign sample_client spring_sale))
       = CampaignBudgetsCreate
           \<lparr>bc_name = ''Budget for Spring sale'', bc_amount_micros = Finite 12500000,
            bc_delivery_method = ''STANDARD''\<rparr>
   \<and> uc_budget new_budget = Some (Finite 12.5)
   \<and> query budget_client (updateCampaign_campaignQuery new_budget) = Inr [budget_row]
   \<and> Option.bind (r_campaign_budget budget_row) cb_resource_name
       = Some ''customers/1234567890/campaignBudgets/7''
   \<and> CampaignBudgetsUpdate
        \<lparr>bu_resource_name = ''customers/1234567890/campaignBudgets/7'',
         bu_amount_micros = Finite 12500000\<rparr>
       \<in> set (fst (updateCampaign budget_client new_budget))
   \<and> bu_amount_micros
        \<lparr>bu_resource_name = ''customers/1234567890/campaignBudgets/7'',
         bu_amount_micros = Finite 12500000\<rparr> = Finite 12500000
   \<and> microsToNumber (Some 2500000) = Some 2.5
   \<and> Option.bind (r_metrics (campaign_row 2500000 None)) m_cost_micros = Some 2500000
   \<and> cm_cost (ce_metrics (comparison_entry (campaign_row 2500000 None))) = 2.5
   \<and> Option.bind (r_campaign_budget budget_amount_row) cb_amount_micros = Some 2500000
   \<and> ce_dailyBudget (comparison_entry budget_amount_row) = 2.5
   \<and> query bid_client (getAdGroup_query \<lparr>ga_adGroupId = ''456''\<rparr>) = Inr [bid_row]
   \<and> map_sum id gar_cpcBidMicros (snd (getAdGroup bid_client \<lparr>ga_adGroupId = ''456''\<rparr>))
       = Inr (Some 2500000)"
proof -
  note t = micros_conversion
    [where customer = sample_client and cparams = spring_sale and b = "12.5"
       and n = 12500000
       and ucustomer = budget_client and uparams = new_budget and ub = "12.5"
       and un = 12500000 and r = budget_row and others = "[]"
       and u = "\<lparr>bu_resource_name = ''customers/1234567890/campaignBudgets/7'',
                  bu_amount_micros = Finite 12500000\<rparr>"
       and name = "''customers/1234567890/campaignBudgets/7''" and m = 2500000
       and crow = "campaign_row 2500000 None" and cm = 2500000
       and brow = budget_amount_row and bm = 2500000
       and client = bid_client and args = "\<lparr>ga_adGroupId = ''456''\<rparr>"
       and grow = bid_row and remaining = "[]"]
  have n: "(12.5 :: rat) * 1000000 = of_int 12500000" "\<bar>12500000 :: int\<bar> < 2 ^ 53"
    by simp_all
  have c: "cr_budget spring_sale = Finite 12.5" "cr_name spring_sale = ''Spring sale''"
    by (simp_all add: spring_sale_def)
  have h: "uc_budget new_budget = Some (Finite 12.5)"
    "query budget_client (updateCampaign_campaignQuery new_budget) = Inr [budget_row]"
    "Option.bind (r_campaign_budget budget_row) cb_resource_name
       = Some ''customers/1234567890/campaignBudgets/7''"
    "''customers/1234567890/campaignBudgets/7'' \<noteq> []"
    by (simp_all add: new_budget_def budget_client_def budget_row_def)
  have k: "Option.bind (r_metrics (campaign_row 2500000 None)) m_cost_micros = Some 2500000"
    "Option.bind (r_campaign_budget budget_amount_row) cb_amount_micros = Some 2500000"
    "query bid_client (getAdGroup_query \<lparr>ga_adGroupId = ''456''\<rparr>) = Inr [bid_row]"
    "Option.bind (r_ad_group bid_row) ag_cpc_bid_micros = Some 2500000"
    by (simp_all add: campaign_row_def budget_amount_row_def bid_client_def bid_row_def)
  have "\<exists>rest. fst (createCampaign sample_client spring_sale)
         = CampaignBudgetsCreate
             \<lparr>bc_name = ''Budget for '' @ cr_name spring_sale,
              bc_amount_micros = Finite (of_int 12500000),
              bc_delivery_method = ''STANDARD''\<rparr> # rest"
    using t c(1) n by blast
  then have create: "hd (fst (createCampaign sample_client spring_sale))
       = CampaignBudgetsCreate
           \<lparr>bc_name = ''Budget for Spring sale'', bc_amount_micros = Finite 12500000,
            bc_delivery_method = ''STANDARD''\<rparr>"
    by (auto simp add: c(2))
  have "CampaignBudgetsUpdate
        \<lparr>bu_resource_name = ''customers/1234567890/campaignBudgets/7'',
         bu_amount_micros = Finite (of_int 12500000)\<rparr>
       \<in> set (fst (updateCampaign budget_client new_budget))"
    using t h n by blast
  then have update: "CampaignBudgetsUpdate
        \<lparr>bu_resource_name = ''customers/1234567890/campaignBudgets/7'',
         bu_amount_micros = Finite 12500000\<rparr>
       \<in> set (fst (updateCampaign budget_client new_budget))"
    by simp
  have "bu_amount_micros
        \<lparr>bu_resource_name = ''customers/1234567890/campaignBudgets/7'',
         bu_amount_micros = Finite 12500000\<rparr> = Finite (of_int 12500000)"
    using t h(1) n update by blast
  then have carried: "bu_amount_micros
        \<lparr>bu_resource_name = ''customers/1234567890/campaignBudgets/7'',
         bu_amount_micros = Finite 12500000\<rparr> = Finite 12500000"
    by simp
  have "microsToNumber (Some 2500000) = Some (2500000 / 1000000)"
    using t by blast
  then have micros: "microsToNumber (Some 2500000) = Some 2.5"
    by simp
  have "cm_cost (ce_metrics (comparison_entry (campaign_row 2500000 None)))
          = 2500000 / 1000000"
    using t k(1) by blast
  then have cost: "cm_cost (ce_metrics (comparison_entry (campaign_row 2500000 None))) = 2.5"
    by simp
  have "ce_dailyBudget (comparison_entry budget_amount_row) = 2500000 / 1000000"
    using t k(2) by blast
  then have daily: "ce_dailyBudget (comparison_entry budget_amount_row) = 2.5"
    by simp
  have "\<exists>found. snd (getAdGroup bid_client \<lparr>ga_adGroupId = ''456''\<rparr>) = Inr found
           \<and> gar_cpcBidMicros found = Option.bind (r_ad_group bid_row) ag_cpc_bid_micros"
    using t k(3) by blast
  then have bid: "map_sum id gar_cpcBidMicros
          (snd (getAdGroup bid_client \<lparr>ga_adGroupId = ''456''\<rparr>)) = Inr (Some 2500000)"
    by (auto simp add: k(4))
  from n c(1) h(1,2,3) k(1,2,3) create update carried micros cost daily bid show ?thesis
    by blast
qed

section \<open>Campaign comparison\<close>

text \<open>
  C2. For every list of per-campaign entries, each of the five summed fields of the
  totals of \<open>get_campaign_comparison\<close> (cost, clicks, impressions, conversions, revenue)
  is the sum of that metric over the entries, and \<open>totals.roas\<close> is
  \<open>totals.revenue / totals.cost\<close> when \<open>totals.cost > 0\<close> and 0 otherwise: it is computed
  from the sums. When the query returns rows, the handler returns the entries of those
  rows together with the totals of exactly these entries.
\<close>

theorem comparison_totals_recomputed:
  "t_cost (comparison_totals cs) = (\<Sum>c\<leftarrow>cs. cm_cost (ce_metrics c))
   \<and> t_clicks (comparison_totals cs) = (\<Sum>c\<leftarrow>cs. cm_clicks (ce_metrics c))
   \<and> t_impressions (comparison_totals cs) = (\<Sum>c\<leftarrow>cs. cm_impressions (ce_metrics c))
   \<and> t_conversions (comparison_totals cs) = (\<Sum>c\<leftarrow>cs. cm_conversions (ce_metrics c))
   \<and> t_revenue (comparison_totals cs) = (\<Sum>c\<leftarrow>cs. cm_revenue (ce_metrics c))
   \<and> t_roas (comparison_totals cs)
       = (if t_cost (comparison_totals cs) > 0
          then t_revenue (comparison_totals cs) / t_cost (comparison_totals cs) else 0)
   \<and> (query client (getCampaignComparison_query args) = Inr rows \<longrightarrow>
        snd (getCampaignComparison client args)
          = Inr \<lparr>gcc_dateRange = cmpa_dateRange args,
                 gcc_sortedBy = cmpa_metric args,
                 gcc_totals = comparison_totals (map comparison_entry rows),
                 gcc_campaigns = map comparison_entry rows\<rparr>)"
  by (simp add: comparison_totals_def Let_def foldl_add_campaign no_campaigns_def
      getCampaignComparison_def rethrow_with_def and_then_def run_query_def returns_def)

text \<open>Two campaigns with costs 1 and 3 and revenues 4 and 0 have the per-campaign \<open>roas\<close>
  values 4 and 0, whose average is 2; the totals have cost 4, revenue 4 and \<open>roas\<close> 1.\<close>

theorem comparison_totals_recomputed_witness:
  "query two_campaigns_client (getCampaignComparison_query by_cost) = Inr two_campaigns
   \<and> map (\<lambda>c. cm_cost (ce_metrics c)) (map comparison_entry two_campaigns) = [1, 3]
   \<and> map (\<lambda>c. cm_revenue (ce_metrics c)) (map comparison_entry two_campaigns) = [4, 0]
   \<and> map (\<lambda>c. cm_roas (ce_metrics c)) (map comparison_entry two_campaigns) = [4, 0]
   \<and> t_cost (comparison_totals (map comparison_entry two_campaigns)) = 4
   \<and> t_revenue (comparison_totals (map comparison_entry two_campaigns)) = 4
   \<and> t_roas (comparison_totals (map comparison_entry two_campaigns)) = 1
   \<and> snd (getCampaignComparison two_campaigns_client by_cost)
       = Inr \<lparr>gcc_dateRange = LAST_30_DAYS, gcc_sortedBy = COST,
              gcc_totals = comparison_totals (map comparison_entry two_campaigns),
              gcc_campaigns = map comparison_entry two_campaigns\<rparr>"
proof -
  note t = comparison_totals_recomputed
    [of "map comparison_entry two_campaigns" two_campaigns_client by_cost two_campaigns]
  have q: "query two_campaigns_client (getCampaignComparison_query by_cost) = Inr two_campaigns"
    by (simp add: two_campaigns_client_def)
  have e: "map (\<lambda>c. cm_cost (ce_metrics c)) (map comparison_entry two_campaigns) = [1, 3]
      \<and> map (\<lambda>c. cm_revenue (ce_metrics c)) (map comparison_entry two_campaigns) = [4, 0]
      \<and> map (\<lambda>c. cm_roas (ce_metrics c)) (map comparison_entry two_campaigns) = [4, 0]"
    by (simp add: two_campaigns_def campaign_row_def comparison_entry_def microsToNumber_def
        or_zero_def Let_def)
  from t e have s: "t_cost (comparison_totals (map comparison_entry two_campaigns)) = 4
      \<and> t_revenue (comparison_totals (map comparison_entry two_campaigns)) = 4"
    by simp
  with t have r: "t_roas (comparison_totals (map comparison_entry two_campaigns)) = 1"
    by simp
  from t q have h: "snd (getCampaignComparison two_campaigns_client by_cost)
       = Inr \<lparr>gcc_dateRange = cmpa_dateRange by_cost, gcc_sortedBy = cmpa_metric by_cost,
              gcc_totals = comparison_totals (map comparison_entry two_campaigns),
              gcc_campaigns = map comparison_entry two_campaigns\<rparr>"
    by blast
  from q e s r h show ?thesis
    by (simp add: by_cost_def)
qed

section \<open>Top and bottom performers\<close>

text \<open>
  C3. Each metric of the two schemas has its physical field: for keywords, cost is
  \<open>metrics.cost_micros\<close>, clicks \<open>metrics.clicks\<close>, conversions \<open>metrics.conversions\<close>, CTR
  \<open>metrics.ctr\<close>, conversion rate \<open>metrics.conversion_rate\<close>, CPC \<open>metrics.average_cpc\<close> and
  quality score \<open>ad_group_criterion.quality_info.quality_score\<close>; for products, cost,
  clicks, conversions, CTR and conversion rate are the same fields, revenue is
  \<open>metrics.conversions_value\<close> and ROAS is
  \<open>metrics.conversions_value / NULLIF(metrics.cost_micros, 0)\<close>. Both top/bottom tools
  build two queries on one base query, for every metric and every pair of counts,
  whatever the counts are and however the language prints them. The top query is the
  base followed by an \<open>ORDER BY\<close> of the metric's field, \<open>DESC\<close>, and \<open>LIMIT topCount\<close>. The
  bottom query is the base followed by the condition \<open>AND field > 0\<close> and then
  \<open>ORDER BY field ASC LIMIT bottomCount\<close>; for keywords ranked by quality score the
  condition is left out, and what follows the base has no \<open>>\<close> in it at all, unless the
  printed count has one. The products tool, whose schema has no quality score, always
  adds the condition. When the client answers the top query, the two queries are the
  handler's calls, in this order.
\<close>

theorem top_bottom_queries:
  "map (\<lambda>m. (m, keywords_orderByField m)) getTopBottomKeywords_metrics
     = [(COST, ''metrics.cost_micros''),
        (CLICKS, ''metrics.clicks''),
        (CONVERSIONS, ''metrics.conversions''),
        (CTR, ''metrics.ctr''),
        (CONVERSION_RATE, ''metrics.conversion_rate''),
        (CPC, ''metrics.average_cpc''),
        (QUALITY_SCORE, ''ad_group_criterion.quality_info.quality_score'')]
   \<and> map (\<lambda>m. (m, products_orderByField m)) getTopBottomProducts_metrics
       = [(COST, ''metrics.cost_micros''),
          (CLICKS, ''metrics.clicks''),
          (CONVERSIONS, ''metrics.conversions''),
          (REVENUE, ''metrics.conversions_value''),
          (ROAS, ''metrics.conversions_value / NULLIF(metrics.cost_micros, 0)''),
          (CTR, ''metrics.ctr''),
          (CONVERSION_RATE, ''metrics.conversion_rate'')]
   \<and> keywords_topQuery toString args
       = keywords_baseQuery args @ '' ORDER BY '' @ keywords_orderByField (tk_metric args)
         @ '' DESC LIMIT '' @ toString (tk_topCount args)
   \<and> (tk_metric args \<noteq> QUALITY_SCORE \<longrightarrow>
        keywords_bottomQuery toString args
          = keywords_baseQuery args
            @ '' AND '' @ keywords_orderByField (tk_metric args) @ '' > 0''
            @ '' ORDER BY '' @ keywords_orderByField (tk_metric args)
            @ '' ASC LIMIT '' @ toString (tk_bottomCount args))
   \<and> (tk_metric args = QUALITY_SCORE \<longrightarrow>
        keywords_bottomQuery toString args
          = keywords_baseQuery args
            @ '' ORDER BY ad_group_criterion.quality_info.quality_score ASC LIMIT ''
            @ toString (tk_bottomCount args)
        \<and> (CHR ''>'' \<notin> set (toString (tk_bottomCount args)) \<longrightarrow>
             CHR ''>'' \<notin> set (drop (length (keywords_baseQuery args))
                                    (keywords_bottomQuery toString args))))
   \<and> (query client (keywords_topQuery toString args) = Inr rows \<longrightarrow>
        fst (getTopBottomKeywords formatKeyword toString client args)
          = [Query (keywords_topQuery toString args),
             Query (keywords_bottomQuery toString args)])
   \<and> products_topQuery toString pargs
       = products_baseQuery pargs @ '' ORDER BY '' @ products_orderByField (tp_metric pargs)
         @ '' DESC LIMIT '' @ toString (tp_topCount pargs)
   \<and> (tp_metric pargs \<in> set getTopBottomProducts_metrics \<longrightarrow>
        products_bottomQuery toString pargs
          = products_baseQuery pargs
            @ '' AND '' @ products_orderByField (tp_metric pargs) @ '' > 0''
            @ '' ORDER BY '' @ products_orderByField (tp_metric pargs)
            @ '' ASC LIMIT '' @ toString (tp_bottomCount pargs))
   \<and> (query pclient (products_topQuery toString pargs) = Inr prows \<longrightarrow>
        fst (getTopBottomProducts formatProduct toString pclient pargs)
          = [Query (products_topQuery toString pargs),
             Query (products_bottomQuery toString pargs)])"
proof (intro conjI impI)
  show "map (\<lambda>m. (m, keywords_orderByField m)) getTopBottomKeywords_metrics
     = [(COST, ''metrics.cost_micros''),
        (CLICKS, ''metrics.clicks''),
        (CONVERSIONS, ''metrics.conversions''),
        (CTR, ''metrics.ctr''),
        (CONVERSION_RATE, ''metrics.conversion_rate''),
        (CPC, ''metrics.average_cpc''),
        (QUALITY_SCORE, ''ad_group_criterion.quality_info.quality_score'')]"
    by (simp add: getTopBottomKeywords_metrics_def)
  show "map (\<lambda>m. (m, products_orderByField m)) getTopBottomProducts_metrics
       = [(COST, ''metrics.cost_micros''),
          (CLICKS, ''metrics.clicks''),
          (CONVERSIONS, ''metrics.conversions''),
          (REVENUE, ''metrics.conversions_value''),
          (ROAS, ''metrics.conversions_value / NULLIF(metrics.cost_micros, 0)''),
          (CTR, ''metrics.ctr''),
          (CONVERSION_RATE, ''metrics.conversion_rate'')]"
    by (simp add: getTopBottomProducts_metrics_def)
  show "keywords_topQuery toString args
       = keywords_baseQuery args @ '' ORDER BY '' @ keywords_orderByField (tk_metric args)
         @ '' DESC LIMIT '' @ toString (tk_topCount args)"
    by (simp add: keywords_topQuery_def)
  show "products_topQuery toString pargs
       = products_baseQuery pargs @ '' ORDER BY '' @ products_orderByField (tp_metric pargs)
         @ '' DESC LIMIT '' @ toString (tp_topCount pargs)"
    by (simp add: products_topQuery_def)
  show "products_bottomQuery toString pargs
          = products_baseQuery pargs
            @ '' AND '' @ products_orderByField (tp_metric pargs) @ '' > 0''
            @ '' ORDER BY '' @ products_orderByField (tp_metric pargs)
            @ '' ASC LIMIT '' @ toString (tp_bottomCount pargs)"
    by (simp add: products_bottomQuery_def)
next
  assume "tk_metric args \<noteq> QUALITY_SCORE"
  then show "keywords_bottomQuery toString args
          = keywords_baseQuery args
            @ '' AND '' @ keywords_orderByField (tk_metric args) @ '' > 0''
            @ '' ORDER BY '' @ keywords_orderByField (tk_metric args)
            @ '' ASC LIMIT '' @ toString (tk_bottomCount args)"
    by (simp add: keywords_bottomQuery_def keywords_bottomCondition_def)
next
  assume q: "tk_metric args = QUALITY_SCORE"
  then show b: "keywords_bottomQuery toString args
          = keywords_baseQuery args
            @ '' ORDER BY ad_group_criterion.quality_info.quality_score ASC LIMIT ''
            @ toString (tk_bottomCount args)"
    by (simp add: keywords_bottomQuery_def keywords_bottomCondition_def)
  assume "CHR ''>'' \<notin> set (toString (tk_bottomCount args))"
  then show "CHR ''>'' \<notin> set (drop (length (keywords_baseQuery args))
                                   (keywords_bottomQuery toString args))"
    unfolding b by simp
next
  assume "query client (keywords_topQuery toString args) = Inr rows"
  then show "fst (getTopBottomKeywords formatKeyword toString client args)
          = [Query (keywords_topQuery toString args),
             Query (keywords_bottomQuery toString args)]"
    by (rule keywords_calls)
next
  assume "query pclient (products_topQuery toString pargs) = Inr prows"
  then show "fst (getTopBottomProducts formatProduct toString pclient pargs)
          = [Query (products_topQuery toString pargs),
             Query (products_bottomQuery toString pargs)]"
    by (rule products_calls)
qed

text \<open>Three and three, by clicks, by quality score, and products by revenue, with the
  counts printed as the integers they are.\<close>

theorem top_bottom_queries_witness:
  "tk_metric by_clicks \<noteq> QUALITY_SCORE
   \<and> keywords_topQuery number_string by_clicks
       = keywords_baseQuery by_clicks @ '' ORDER BY metrics.clicks DESC LIMIT 3''
   \<and> keywords_bottomQuery number_string by_clicks
       = keywords_baseQuery by_clicks
         @ '' AND metrics.clicks > 0 ORDER BY metrics.clicks ASC LIMIT 3''
   \<and> tk_metric by_quality_score = QUALITY_SCORE
   \<and> keywords_bottomQuery number_string by_quality_score
       = keywords_baseQuery by_quality_score
         @ '' ORDER BY ad_group_criterion.quality_info.quality_score ASC LIMIT 3''
   \<and> CHR ''>'' \<notin> set (number_string (tk_bottomCount by_quality_score))
   \<and> CHR ''>'' \<notin> set (drop (length (keywords_baseQuery by_quality_score))
                            (keywords_bottomQuery number_string by_quality_score))
   \<and> tp_metric products_by_revenue \<in> set getTopBottomProducts_metrics
   \<and> products_bottomQuery number_string products_by_revenue
       = products_baseQuery products_by_revenue
         @ '' AND metrics.conversions_value > 0 ORDER BY metrics.conversions_value ASC LIMIT 3''
   \<and> query sample_client (keywords_topQuery number_string by_clicks) = Inr []
   \<and> fst (getTopBottomKeywords id number_string sample_client by_clicks)
       = [Query (keywords_topQuery number_string by_clicks),
          Query (keywords_bottomQuery number_string by_clicks)]
   \<and> query sample_client (products_topQuery number_string products_by_revenue) = Inr []
   \<and> fst (getTopBottomProducts id number_string sample_client products_by_revenue)
       = [Query (products_topQuery number_string products_by_revenue),
          Query (products_bottomQuery number_string products_by_revenue)]"
proof -
  have m: "tk_metric by_clicks = CLICKS" "tk_metric by_quality_score = QUALITY_SCORE"
    "tp_metric products_by_revenue = REVENUE"
    "tk_topCount by_clicks = 3" "tk_bottomCount by_clicks = 3"
    "tk_bottomCount by_quality_score = 3" "tp_bottomCount products_by_revenue = 3"
    by (simp_all add: by_clicks_def by_quality_score_def products_by_revenue_def)
  have q: "query sample_client (keywords_topQuery number_string by_clicks) = Inr []"
    "query sample_client (products_topQuery number_string products_by_revenue) = Inr []"
    by (simp_all add: sample_client_def)
  have g: "CHR ''>'' \<notin> set (number_string (tk_bottomCount by_quality_score))"
    by (rule number_string_no_gt)
  note t1 = top_bottom_queries
    [where toString = number_string and args = by_clicks and client = sample_client
       and rows = "[]" and formatKeyword = id and pargs = products_by_revenue
       and pclient = sample_client and prows = "[]" and formatProduct = id]
  note t2 = top_bottom_queries
    [where toString = number_string and args = by_quality_score and client = sample_client
       and rows = "[]" and formatKeyword = id and pargs = products_by_revenue
       and pclient = sample_client and prows = "[]" and formatProduct = id]
  have a: "keywords_topQuery number_string by_clicks
       = keywords_baseQuery by_clicks @ '' ORDER BY metrics.clicks DESC LIMIT 3''"
    using t1 by (simp add: m number_string_3)
  have b: "keywords_bottomQuery number_string by_clicks
       = keywords_baseQuery by_clicks
         @ '' AND metrics.clicks > 0 ORDER BY metrics.clicks ASC LIMIT 3''"
    using t1 by (simp add: m number_string_3)
  have c: "keywords_bottomQuery number_string by_quality_score
       = keywords_baseQuery by_quality_score
         @ '' ORDER BY ad_group_criterion.quality_info.quality_score ASC LIMIT 3''"
    using t2 by (simp add: m number_string_3)
  have c': "CHR ''>'' \<notin> set (drop (length (keywords_baseQuery by_quality_score))
                            (keywords_bottomQuery number_string by_quality_score))"
    using t2 g m(2) by blast
  have d: "tp_metric products_by_revenue \<in> set getTopBottomProducts_metrics"
    by (simp add: m getTopBottomProducts_metrics_def)
  have e: "products_bottomQuery number_string products_by_revenue
       = products_baseQuery products_by_revenue
         @ '' AND metrics.conversions_value > 0 ORDER BY metrics.conversions_value ASC LIMIT 3''"
    using t1 d by (simp add: m number_string_3)
  have f: "fst (getTopBottomKeywords id number_string sample_client by_clicks)
       = [Query (keywords_topQuery number_string by_clicks),
          Query (keywords_bottomQuery number_string by_clicks)]"
    using t1 q(1) by blast
  have f': "fst (getTopBottomProducts id number_string sample_client products_by_revenue)
       = [Query (products_topQuery number_string products_by_revenue),
          Query (products_bottomQuery number_string products_by_revenue)]"
    using t1 q(2) by blast
  from a b c c' d e f f' g q m show ?thesis
    by simp
qed

section \<open>Custom date ranges\<close>

text \<open>
  C4. What the code does when \<open>dateRange\<close> is \<open>CUSTOM\<close> and \<open>customDateRange\<close> is absent:
  \<open>get_search_terms_report\<close> and \<open>list_campaigns\<close> raise nothing. Each builds its query
  with the date condition \<open>segments.date DURING CUSTOM\<close> and sends it to the client, as
  its one call.
\<close>

theorem custom_without_range_is_queried:
  "(st_dateRange params = CUSTOM \<and> st_customDateRange params = None \<longrightarrow>
      fst (getSearchTermsReport entry customer params)
        = [Query (getSearchTermsReport_query params)]
      \<and> sublist ''WHERE segments.date DURING CUSTOM'' (getSearchTermsReport_query params))
   \<and> (lc_dateRange lparams = CUSTOM \<and> lc_customDateRange lparams = None \<longrightarrow>
        fst (listCampaigns lentry lcustomer lparams) = [Query (listCampaigns_query lparams)]
        \<and> sublist ''segments.date DURING CUSTOM'' (listCampaigns_query lparams))"
proof (intro conjI impI)
  assume a: "st_dateRange params = CUSTOM \<and> st_customDateRange params = None"
  show "fst (getSearchTermsReport entry customer params)
        = [Query (getSearchTermsReport_query params)]"
    by (rule getSearchTermsReport_calls)
  have "getSearchTermsReport_dateClause params = ''segments.date DURING CUSTOM''"
    using a by (simp add: getSearchTermsReport_dateClause_def)
  then have "\<exists>rest. getSearchTermsReport_whereClause params
               = ''WHERE segments.date DURING CUSTOM'' @ rest"
    by (simp add: getSearchTermsReport_whereClause_def)
  then obtain rest where w: "getSearchTermsReport_whereClause params
               = ''WHERE segments.date DURING CUSTOM'' @ rest" by blast
  show "sublist ''WHERE segments.date DURING CUSTOM'' (getSearchTermsReport_query params)"
    unfolding getSearchTermsReport_query_def Let_def w
    by (rule sublist_in_middle) (rule sublist_append_rightI)
next
  assume a: "lc_dateRange lparams = CUSTOM \<and> lc_customDateRange lparams = None"
  show "fst (listCampaigns lentry lcustomer lparams) = [Query (listCampaigns_query lparams)]"
    by (rule listCampaigns_calls)
  have "\<exists>cs. listCampaigns_whereConditions lparams = cs @ [''segments.date DURING CUSTOM'']"
    using a by (simp add: listCampaigns_whereConditions_def)
  then obtain cs where c: "listCampaigns_whereConditions lparams
      = cs @ [''segments.date DURING CUSTOM'']" by blast
  have "sublist ''segments.date DURING CUSTOM''
          (join '' AND '' (listCampaigns_whereConditions lparams))"
    unfolding c by (rule join_last)
  then show "sublist ''segments.date DURING CUSTOM'' (listCampaigns_query lparams)"
    unfolding listCampaigns_query_def Let_def c
    by (simp del: append.simps append_assoc add: sublist_in_middle sublist_at_back)
qed

text \<open>The call \<open>get_search_terms_report\<close> with \<open>{dateRange: 'CUSTOM'}\<close> and the schema's
  defaults, on a client that finds no rows: the query is sent and the call succeeds with
  an empty list. Likewise the query of \<open>list_campaigns\<close>.\<close>

theorem custom_without_range_is_queried_witness:
  "st_dateRange custom_without_range = CUSTOM
   \<and> st_customDateRange custom_without_range = None
   \<and> getSearchTermsReport whole_row sample_client custom_without_range
       = ([Query (getSearchTermsReport_query custom_without_range)], Inr [])
   \<and> sublist ''WHERE segments.date DURING CUSTOM''
        (getSearchTermsReport_query custom_without_range)
   \<and> lc_dateRange custom_campaigns_without_range = CUSTOM
   \<and> lc_customDateRange custom_campaigns_without_range = None
   \<and> sublist ''segments.date DURING CUSTOM''
        (listCampaigns_query custom_campaigns_without_range)"
  using custom_without_range_is_queried
    [of custom_without_range whole_row sample_client custom_campaigns_without_range
        whole_row sample_client]
  by (simp add: custom_without_range_def custom_campaigns_without_range_def
      getSearchTermsReport_def and_then_def run_query_def sample_client_def)

section \<open>Partial updates\<close>

text \<open>
  C5, as the claim states it, fails for \<open>update_keyword\<close>: called with only \<open>status\<close>, the
  handler hands \<open>adGroupCriteria.update\<close> the resource name and the one field \<open>status\<close>,
  and no call it makes carries a field-mask path list.
\<close>

theorem updateKeyword_sends_no_field_mask:
  "fst (updateKeyword sample_client pause_keyword)
     = [AdGroupCriteriaUpdate
          \<lparr>ru_resource_name = ''customers/1234567890/adGroupCriteria/456~789'',
           ru_fields = [(''status'', StatusValue PAUSED)]\<rparr>]
   \<and> concat (map update_masks (fst (updateKeyword sample_client pause_keyword))) = []"
  by (simp add: updateKeyword_def sample_client_def pause_keyword_def)

text \<open>
  C5, amended. \<open>update_keyword\<close> makes one call, the update of one resource whose fields
  are exactly the supplied ones among \<open>status\<close> and \<open>cpc_bid_micros\<close>, in this order (so
  only \<open>status\<close> when only \<open>status\<close> is supplied), and it builds no field mask.
  \<open>update_ad_group\<close>, which builds one, makes one call with one operation, whose mask
  paths are exactly the fields set in its update object, in the same order: the supplied
  ones among \<open>name\<close>, \<open>status\<close>, \<open>cpc_bid_micros\<close>, \<open>cpm_bid_micros\<close>,
  \<open>target_cpa_micros\<close> and \<open>target_roas\<close>.
\<close>

theorem update_payload_fields:
  "(\<exists>u. fst (updateKeyword customer params) = [AdGroupCriteriaUpdate u]
        \<and> map fst (ru_fields u)
            = (if uk_status params = None then [] else [''status''])
              @ (if uk_cpcBidMicros params = None then [] else [''cpc_bid_micros'']))
   \<and> concat (map update_masks (fst (updateKeyword customer params))) = []
   \<and> (\<exists>x. fst (updateAdGroup client args) = [MutateAdGroups (customer_id client) [x]]
        \<and> op_update_mask_paths x = map fst (ru_fields (op_update x))
        \<and> op_update_mask_paths x
            = (if ua_name args = None then [] else [''name''])
              @ (if ua_status args = None then [] else [''status''])
              @ (if ua_cpcBidMicros args = None then [] else [''cpc_bid_micros''])
              @ (if ua_cpmBidMicros args = None then [] else [''cpm_bid_micros''])
              @ (if ua_targetCpaMicros args = None then [] else [''target_cpa_micros''])
              @ (if ua_targetRoas args = None then [] else [''target_roas'']))"
proof (intro conjI)
  show "\<exists>u. fst (updateKeyword customer params) = [AdGroupCriteriaUpdate u]
        \<and> map fst (ru_fields u)
            = (if uk_status params = None then [] else [''status''])
              @ (if uk_cpcBidMicros params = None then [] else [''cpc_bid_micros''])"
    unfolding updateKeyword_calls by (simp split: option.split)
  show "concat (map update_masks (fst (updateKeyword customer params))) = []"
    unfolding updateKeyword_calls by simp
  show "\<exists>x. fst (updateAdGroup client args) = [MutateAdGroups (customer_id client) [x]]
        \<and> op_update_mask_paths x = map fst (ru_fields (op_update x))
        \<and> op_update_mask_paths x
            = (if ua_name args = None then [] else [''name''])
              @ (if ua_status args = None then [] else [''status''])
              @ (if ua_cpcBidMicros args = None then [] else [''cpc_bid_micros''])
              @ (if ua_cpmBidMicros args = None then [] else [''cpm_bid_micros''])
              @ (if ua_targetCpaMicros args = None then [] else [''target_cpa_micros''])
              @ (if ua_targetRoas args = None then [] else [''target_roas''])"
    unfolding updateAdGroup_calls
    by (simp add: set_field_paths)
qed

text \<open>The arguments \<open>{keywordId, adGroupId, status: 'PAUSED'}\<close> pass the schema of
  \<open>update_keyword\<close>; the update carries \<open>status\<close> alone. The same change of an ad group
  carries \<open>status\<close> and the mask \<open>["status"]\<close>.\<close>

theorem update_payload_fields_witness:
  "updateKeywordSchema_parse sample_zodMessage (Some status_only) = Inr pause_keyword
   \<and> fst (updateKeyword sample_client pause_keyword)
       = [AdGroupCriteriaUpdate
            \<lparr>ru_resource_name = ''customers/1234567890/adGroupCriteria/456~789'',
             ru_fields = [(''status'', StatusValue PAUSED)]\<rparr>]
   \<and> fst (updateAdGroup sample_client pause_ad_group)
       = [MutateAdGroups ''1234567890''
            [\<lparr>op_update =
                \<lparr>ru_resource_name = ''customers/1234567890/adGroups/456'',
                 ru_fields = [(''status'', StatusValue PAUSED)]\<rparr>,
              op_update_mask_paths = [''status'']\<rparr>]]"
proof -
  obtain u where u: "fst (updateKeyword sample_client pause_keyword) = [AdGroupCriteriaUpdate u]"
    using update_payload_fields [of sample_client pause_keyword] by blast
  have p: "updateKeywordSchema_parse sample_zodMessage (Some status_only) = Inr pause_keyword"
    by (simp add: updateKeywordSchema_parse_def status_only_def property_def
        optional_status_def optional_number_def pause_keyword_def)
  have k: "fst (updateKeyword sample_client pause_keyword)
       = [AdGroupCriteriaUpdate
            \<lparr>ru_resource_name = ''customers/1234567890/adGroupCriteria/456~789'',
             ru_fields = [(''status'', StatusValue PAUSED)]\<rparr>]"
    by (simp add: updateKeyword_def sample_client_def pause_keyword_def)
  have g: "fst (updateAdGroup sample_client pause_ad_group)
       = [MutateAdGroups ''1234567890''
            [\<lparr>op_update =
                \<lparr>ru_resource_name = ''customers/1234567890/adGroups/456'',
                 ru_fields = [(''status'', StatusValue PAUSED)]\<rparr>,
              op_update_mask_paths = [''status'']\<rparr>]]"
    by (simp add: updateAdGroup_def Let_def rethrow_with_def and_then_def returns_def
        set_field_def sample_client_def pause_ad_group_def)
  from u p k g show ?thesis
    by simp
qed

section \<open>Dispatch\<close>

text \<open>
  C6, as the claim states it, fails for a registered name: \<open>get_ad_group\<close> is in the
  registry, and called with an empty argument object the dispatcher answers with an
  internal error after no call at all. The tool's function was not invoked: it queries
  the client whenever it runs.
\<close>

theorem callTool_rejected_arguments:
  "''get_ad_group'' \<in> set allTools
   \<and> callTool get_ad_group_parse (get_ad_group_handler sample_client) sample_stringify
        ''get_ad_group'' (Some (JObject []))
      = ([], Inl (McpError InternalError ''Tool execution failed: Required''))
   \<and> fst (get_ad_group_handler sample_client get_ad_group \<lparr>ga_adGroupId = []\<rparr>) \<noteq> []"
  by (simp add: allTools_def callTool_def resolve_def get_ad_group_parse_empty
      and_then_def catch_clause_def get_ad_group_handler_def getAdGroup_def rethrow_with_def
      run_query_def sample_client_def)

text \<open>
  C6, amended. For a name that is not in the registry the dispatcher throws the
  method-not-found error \<open>Unknown tool: name\<close> and nothing has been called, whatever the
  schemas and tool functions are. A name in the registry is the name of exactly one
  tool of the \<open>switch\<close>; that tool's schema parses the arguments, and when it accepts
  them the tool's function is invoked on the parsed arguments: the calls are its calls
  and the outcome is its result wrapped, or its exception through the \<open>catch\<close> clause.
  When the schema rejects the arguments, no function is invoked and its exception goes
  through the \<open>catch\<close> clause.
\<close>

theorem callTool_dispatch:
  "(name \<notin> set allTools \<longrightarrow>
      callTool parse handler stringify name args
        = ([], Inl (McpError MethodNotFound (''Unknown tool: '' @ name))))
   \<and> (name \<in> set allTools \<longrightarrow>
        (\<exists>t. name = tool_name t \<and>
          (case parse t args of
             Inl e \<Rightarrow> callTool parse handler stringify name args = ([], Inl (catch_clause e))
           | Inr parsed \<Rightarrow>
               callTool parse handler stringify name args
                 = (fst (handler t parsed),
                    case snd (handler t parsed) of
                      Inl e \<Rightarrow> Inl (catch_clause e)
                    | Inr result \<Rightarrow> Inr [TextContent (stringify result)]))))"
proof (intro conjI impI)
  assume "name \<notin> set allTools"
  then have "resolve name = None"
    by (simp add: resolve_None)
  then show "callTool parse handler stringify name args
        = ([], Inl (McpError MethodNotFound (''Unknown tool: '' @ name)))"
    by (simp add: callTool_def catch_clause_def)
next
  assume "name \<in> set allTools"
  then obtain t where t: "resolve name = Some t"
    using resolve_None [of name] by (cases "resolve name") auto
  then have n: "name = tool_name t"
    by (rule resolve_Some)
  have "case parse t args of
             Inl e \<Rightarrow> callTool parse handler stringify name args = ([], Inl (catch_clause e))
           | Inr parsed \<Rightarrow>
               callTool parse handler stringify name args
                 = (fst (handler t parsed),
                    case snd (handler t parsed) of
                      Inl e \<Rightarrow> Inl (catch_clause e)
                    | Inr result \<Rightarrow> Inr [TextContent (stringify result)])"
    using t by (simp add: callTool_def and_then_def returns_def split: sum.split)
  with n show "\<exists>t. name = tool_name t \<and>
          (case parse t args of
             Inl e \<Rightarrow> callTool parse handler stringify name args = ([], Inl (catch_clause e))
           | Inr parsed \<Rightarrow>
               callTool parse handler stringify name args
                 = (fst (handler t parsed),
                    case snd (handler t parsed) of
                      Inl e \<Rightarrow> Inl (catch_clause e)
                    | Inr result \<Rightarrow> Inr [TextContent (stringify result)]))"
    by blast
qed

text \<open>An unknown name, and \<open>get_ad_group\<close> with an \<open>adGroupId\<close>: the calls are those of
  \<open>getAdGroup\<close>.\<close>

theorem callTool_dispatch_witness:
  "''delete_campaign'' \<notin> set allTools
   \<and> callTool get_ad_group_parse (get_ad_group_handler sample_client) sample_stringify
        ''delete_campaign'' (Some ad_group_456)
       = ([], Inl (McpError MethodNotFound ''Unknown tool: delete_campaign''))
   \<and> ''get_ad_group'' \<in> set allTools
   \<and> get_ad_group_parse get_ad_group (Some ad_group_456) = Inr \<lparr>ga_adGroupId = ''456''\<rparr>
   \<and> fst (callTool get_ad_group_parse (get_ad_group_handler sample_client) sample_stringify
             ''get_ad_group'' (Some ad_group_456))
       = fst (getAdGroup sample_client \<lparr>ga_adGroupId = ''456''\<rparr>)"
proof -
  have n: "''delete_campaign'' \<notin> set allTools" and r: "''get_ad_group'' \<in> set allTools"
    by (simp_all add: allTools_def)
  have u: "callTool get_ad_group_parse (get_ad_group_handler sample_client) sample_stringify
        ''delete_campaign'' (Some ad_group_456)
       = ([], Inl (McpError MethodNotFound ''Unknown tool: delete_campaign''))"
    using n callTool_dispatch
      [of "''delete_campaign''" get_ad_group_parse "get_ad_group_handler sample_client"
          sample_stringify "Some ad_group_456"]
    by simp
  from r callTool_dispatch
      [of "''get_ad_group''" get_ad_group_parse "get_ad_group_handler sample_client"
          sample_stringify "Some ad_group_456"]
  obtain t where t: "''get_ad_group'' = tool_name t"
    and c: "case get_ad_group_parse t (Some ad_group_456) of
             Inl e \<Rightarrow> callTool get_ad_group_parse (get_ad_group_handler sample_client)
                        sample_stringify ''get_ad_group'' (Some ad_group_456)
                      = ([], Inl (catch_clause e))
           | Inr parsed \<Rightarrow>
               callTool get_ad_group_parse (get_ad_group_handler sample_client)
                 sample_stringify ''get_ad_group'' (Some ad_group_456)
                 = (fst (get_ad_group_handler sample_client t parsed),
                    case snd (get_ad_group_handler sample_client t parsed) of
                      Inl e \<Rightarrow> Inl (catch_clause e)
                    | Inr result \<Rightarrow> Inr [TextContent (sample_stringify result)])"
    by blast
  from t have "t = get_ad_group"
    by (cases t) simp_all
  with c have g: "fst (callTool get_ad_group_parse (get_ad_group_handler sample_client)
             sample_stringify ''get_ad_group'' (Some ad_group_456))
       = fst (getAdGroup sample_client \<lparr>ga_adGroupId = ''456''\<rparr>)"
    by (simp add: get_ad_group_parse_456 get_ad_group_handler_def)
  from n r u g get_ad_group_parse_456 show ?thesis
    by simp
qed

section \<open>Negative keywords\<close>

text \<open>
  C7. An \<open>add_negative_keywords\<close> call with neither \<open>campaignId\<close> nor \<open>adGroupId\<close>
  supplied fails with an error, and the handler has made no call on the external client:
  the keywords alone are never submitted, whatever the client would answer.
\<close>

theorem addNegativeKeywords_requires_level:
  "addNegativeKeywords customer
     \<lparr>ank_campaignId = None, ank_adGroupId = None, ank_keywords = kws\<rparr>
   = ([], Inl (Error ''Either campaignId or adGroupId must be provided''))"
  by (simp add: addNegativeKeywords_def truthy_def)

section \<open>Lookups that find nothing\<close>

text \<open>
  C8. When the query of \<open>get_ad_group\<close> returns no row, the handler throws: its outcome
  is the error \<open>Failed to get ad group: Ad group not found\<close>, after the one query, and
  through the dispatcher the call ends in an internal error with that message. The
  handler returns a payload only when the query has returned at least one row.
\<close>

theorem getAdGroup_not_found:
  "(query client (getAdGroup_query args) = Inr [] \<longrightarrow>
      getAdGroup client args
        = ([Query (getAdGroup_query args)],
           Inl (Error ''Failed to get ad group: Ad group not found''))
      \<and> (parse get_ad_group j = Inr args
           \<and> handler get_ad_group args = getAdGroup client args \<longrightarrow>
           callTool parse handler stringify ''get_ad_group'' j
             = ([Query (getAdGroup_query args)],
                Inl (McpError InternalError
                  ''Tool execution failed: Failed to get ad group: Ad group not found''))))
   \<and> (snd (getAdGroup client args) = Inr found \<longrightarrow>
        (\<exists>row rest. query client (getAdGroup_query args) = Inr (row # rest)))"
proof (intro conjI impI)
  assume q: "query client (getAdGroup_query args) = Inr []"
  then show g: "getAdGroup client args
        = ([Query (getAdGroup_query args)],
           Inl (Error ''Failed to get ad group: Ad group not found''))"
    by (simp add: getAdGroup_def rethrow_with_def and_then_def run_query_def)
  assume "parse get_ad_group j = Inr args
           \<and> handler get_ad_group args = getAdGroup client args"
  with g show "callTool parse handler stringify ''get_ad_group'' j
             = ([Query (getAdGroup_query args)],
                Inl (McpError InternalError
                  ''Tool execution failed: Failed to get ad group: Ad group not found''))"
    by (simp add: callTool_def resolve_def and_then_def catch_clause_def)
next
  assume "snd (getAdGroup client args) = Inr found"
  then show "\<exists>row rest. query client (getAdGroup_query args) = Inr (row # rest)"
    by (auto simp add: getAdGroup_def rethrow_with_def and_then_def run_query_def returns_def
        split: sum.splits list.splits)
qed

text \<open>The sample client finds no ad group 456.\<close>

theorem getAdGroup_not_found_witness:
  "query sample_client (getAdGroup_query \<lparr>ga_adGroupId = ''456''\<rparr>) = Inr []
   \<and> get_ad_group_parse get_ad_group (Some ad_group_456) = Inr \<lparr>ga_adGroupId = ''456''\<rparr>
   \<and> snd (getAdGroup sample_client \<lparr>ga_adGroupId = ''456''\<rparr>)
       = Inl (Error ''Failed to get ad group: Ad group not found'')
   \<and> snd (callTool get_ad_group_parse (get_ad_group_handler sample_client) sample_stringify
             ''get_ad_group'' (Some ad_group_456))
       = Inl (McpError InternalError
           ''Tool execution failed: Failed to get ad group: Ad group not found'')"
proof -
  have q: "query sample_client (getAdGroup_query \<lparr>ga_adGroupId = ''456''\<rparr>) = Inr []"
    by (simp add: sample_client_def)
  have h: "get_ad_group_handler sample_client get_ad_group \<lparr>ga_adGroupId = ''456''\<rparr>
      = getAdGroup sample_client \<lparr>ga_adGroupId = ''456''\<rparr>"
    by (simp add: get_ad_group_handler_def)
  from q get_ad_group_parse_456 h getAdGroup_not_found
    [of sample_client "\<lparr>ga_adGroupId = ''456''\<rparr>" get_ad_group_parse "Some ad_group_456"
        "get_ad_group_handler sample_client" sample_stringify]
  show ?thesis
    by simp
qed

section \<open>Exceptions at the protocol boundary\<close>

text \<open>
  C9, as the claim states it, fails for an exception that is no \<open>Error\<close>: when the
  client rejects the keyword update with a failure object whose message is
  \<open>Quota exhausted\<close>, the dispatcher's internal error says \<open>Unknown error occurred\<close> and
  the original message is not in it.
\<close>

theorem callTool_drops_message:
  "adGroupCriteria_update quota_client
       \<lparr>ru_resource_name = ''customers/1234567890/adGroupCriteria/456~789'',
        ru_fields = [(''status'', StatusValue PAUSED)]\<rparr>
     = Inl (Thrown (Some ''Quota exhausted''))
   \<and> callTool update_keyword_parse (update_keyword_handler quota_client) sample_stringify
       ''update_keyword'' (Some status_only)
     = ([AdGroupCriteriaUpdate
           \<lparr>ru_resource_name = ''customers/1234567890/adGroupCriteria/456~789'',
            ru_fields = [(''status'', StatusValue PAUSED)]\<rparr>],
        Inl (McpError InternalError ''Tool execution failed: Unknown error occurred''))
   \<and> \<not> sublist ''Quota exhausted'' ''Tool execution failed: Unknown error occurred''"
proof (intro conjI)
  show "adGroupCriteria_update quota_client
       \<lparr>ru_resource_name = ''customers/1234567890/adGroupCriteria/456~789'',
        ru_fields = [(''status'', StatusValue PAUSED)]\<rparr>
     = Inl (Thrown (Some ''Quota exhausted''))"
    by (simp add: quota_client_def)
  show "callTool update_keyword_parse (update_keyword_handler quota_client) sample_stringify
       ''update_keyword'' (Some status_only)
     = ([AdGroupCriteriaUpdate
           \<lparr>ru_resource_name = ''customers/1234567890/adGroupCriteria/456~789'',
            ru_fields = [(''status'', StatusValue PAUSED)]\<rparr>],
        Inl (McpError InternalError ''Tool execution failed: Unknown error occurred''))"
    by (simp add: callTool_def resolve_def update_keyword_parse_status_only
        update_keyword_handler_def and_then_def returns_def updateKeyword_def
        pause_keyword_def quota_client_def sample_client_def catch_clause_def)
  show "\<not> sublist ''Quota exhausted'' ''Tool execution failed: Unknown error occurred''"
    by code_simp
qed

text \<open>
  C9, amended. Whatever a tool's schema or function throws reaches the caller through
  the \<open>catch\<close> clause: an \<open>McpError\<close> unchanged; any other \<open>Error\<close> as an internal error
  whose message is \<open>Tool execution failed: \<close> followed by the original message (which it
  therefore contains); a value that is no \<open>Error\<close> as an internal error with the fixed
  message \<open>Tool execution failed: Unknown error occurred\<close>. Every exception that leaves
  the dispatcher, for any name and arguments, is an \<open>McpError\<close>.
\<close>

theorem callTool_rewraps:
  "(resolve name = Some t
      \<and> (parse t args = Inl e \<or> (\<exists>a. parse t args = Inr a \<and> snd (handler t a) = Inl e))
    \<longrightarrow> snd (callTool parse handler stringify name args) = Inl (catch_clause e)
        \<and> (case e of
              McpError c m \<Rightarrow> catch_clause e = e
            | Error m \<Rightarrow>
                catch_clause e = McpError InternalError (''Tool execution failed: '' @ m)
                \<and> sublist m (''Tool execution failed: '' @ m)
            | Thrown x \<Rightarrow>
                catch_clause e
                  = McpError InternalError ''Tool execution failed: Unknown error occurred''))
   \<and> (snd (callTool parse handler stringify name args) = Inl err
        \<longrightarrow> (\<exists>c m. err = McpError c m))"
proof (intro conjI impI)
  assume a: "resolve name = Some t
      \<and> (parse t args = Inl e \<or> (\<exists>a. parse t args = Inr a \<and> snd (handler t a) = Inl e))"
  then show "snd (callTool parse handler stringify name args) = Inl (catch_clause e)"
    by (auto simp add: callTool_def and_then_def returns_def)
  show "case e of
              McpError c m \<Rightarrow> catch_clause e = e
            | Error m \<Rightarrow>
                catch_clause e = McpError InternalError (''Tool execution failed: '' @ m)
                \<and> sublist m (''Tool execution failed: '' @ m)
            | Thrown x \<Rightarrow>
                catch_clause e
                  = McpError InternalError ''Tool execution failed: Unknown error occurred''"
    using sublist_append_leftI [of _ "''Tool execution failed: ''"]
    by (cases e) (simp_all add: catch_clause_def)
next
  assume "snd (callTool parse handler stringify name args) = Inl err"
  then show "\<exists>c m. err = McpError c m"
    by (auto simp add: callTool_def and_then_def returns_def catch_clause_def Let_def
        split: option.splits sum.splits exn.splits)
qed

text \<open>The \<open>ZodError\<close> of \<open>get_ad_group\<close> called with an empty object.\<close>

theorem callTool_rewraps_witness:
  "resolve ''get_ad_group'' = Some get_ad_group
   \<and> get_ad_group_parse get_ad_group (Some (JObject [])) = Inl (Error ''Required'')
   \<and> snd (callTool get_ad_group_parse (get_ad_group_handler sample_client) sample_stringify
             ''get_ad_group'' (Some (JObject [])))
       = Inl (McpError InternalError ''Tool execution failed: Required'')"
proof -
  have r: "resolve ''get_ad_group'' = Some get_ad_group"
    by (simp add: resolve_def)
  from r get_ad_group_parse_empty callTool_rewraps
    [of "''get_ad_group''" get_ad_group get_ad_group_parse "Some (JObject [])"
        "Error ''Required''" "get_ad_group_handler sample_client" sample_stringify]
  have "snd (callTool get_ad_group_parse (get_ad_group_handler sample_client) sample_stringify
             ''get_ad_group'' (Some (JObject [])))
       = Inl (catch_clause (Error ''Required''))"
    by blast
  with r get_ad_group_parse_empty show ?thesis
    by (simp add: catch_clause_def)
qed

section \<open>The level of negative keywords\<close>

text \<open>
  C10, as the claim states it, fails when the supplied \<open>adGroupId\<close> is the empty string:
  both ids are supplied, and the keywords are created as campaign criteria, with the
  result level \<open>campaign\<close>.
\<close>

theorem addNegativeKeywords_empty_adGroupId:
  "ank_campaignId empty_adGroupId = Some ''123''
   \<and> ank_adGroupId empty_adGroupId = Some []
   \<and> addNegativeKeywords sample_client empty_adGroupId
     = ([CampaignCriteriaCreate
           [\<lparr>cc_campaign = ''customers/1234567890/campaigns/123'', cc_negative = True,
             cc_keyword = \<lparr>keyword_text = ''free'', match_type = BROAD\<rparr>\<rparr>]],
        Inr (Some \<lparr>anr_success = True, anr_level = level_campaign, anr_addedKeywords = 1\<rparr>))"
  by (simp add: addNegativeKeywords_def truthy_def interpolate_def sample_client_def
      empty_adGroupId_def both_levels_def)

text \<open>
  C10, amended. When \<open>adGroupId\<close> is supplied and not empty, whatever \<open>campaignId\<close> is,
  the handler's one call creates ad-group criteria: one negative criterion per keyword,
  in order, under that ad group; the call's failure is the handler's, and on success
  the result has level \<open>ad_group\<close> and counts the call's results. A call that creates
  campaign criteria is made only when \<open>adGroupId\<close> is absent or empty (and \<open>campaignId\<close>
  is supplied and not empty).
\<close>

theorem addNegativeKeywords_ad_group_precedence:
  "(truthy (ank_adGroupId params) \<longrightarrow>
      (\<exists>ops. fst (addNegativeKeywords customer params) = [AdGroupCriteriaCreate ops]
         \<and> map agc_keyword ops
             = map (\<lambda>k. \<lparr>keyword_text = nk_text k, match_type = nk_matchType k\<rparr>)
                 (ank_keywords params)
         \<and> list_all (\<lambda>x. agc_negative x
                \<and> agc_ad_group x = ''customers/'' @ customer_id customer @ ''/adGroups/''
                                     @ interpolate (ank_adGroupId params)) ops
         \<and> (case snd (addNegativeKeywords customer params) of
               Inl e \<Rightarrow> adGroupCriteria_create customer ops = Inl e
             | Inr r \<Rightarrow> (\<exists>results. adGroupCriteria_create customer ops = Inr results
                    \<and> r = Some \<lparr>anr_success = True, anr_level = level_ad_group,
                                 anr_addedKeywords = length results\<rparr>))))
   \<and> ((\<exists>ops. CampaignCriteriaCreate ops \<in> set (fst (addNegativeKeywords customer params)))
        \<longrightarrow> \<not> truthy (ank_adGroupId params) \<and> truthy (ank_campaignId params))"
  by (auto simp add: addNegativeKeywords_def Let_def list_all_iff comp_def split: sum.splits)

text \<open>Both ids supplied: the keyword becomes a criterion of ad group 456.\<close>

theorem addNegativeKeywords_ad_group_precedence_witness:
  "truthy (ank_adGroupId both_levels) \<and> truthy (ank_campaignId both_levels)
   \<and> fst (addNegativeKeywords sample_client both_levels)
       = [AdGroupCriteriaCreate
            [\<lparr>agc_ad_group = ''customers/1234567890/adGroups/456'', agc_status = ENABLED,
              agc_negative = True,
              agc_keyword = \<lparr>keyword_text = ''free'', match_type = BROAD\<rparr>\<rparr>]]
   \<and> snd (addNegativeKeywords sample_client both_levels)
       = Inr (Some \<lparr>anr_success = True, anr_level = level_ad_group, anr_addedKeywords = 1\<rparr>)"
proof -
  have t: "truthy (ank_adGroupId both_levels) \<and> truthy (ank_campaignId both_levels)"
    by (simp add: both_levels_def truthy_def)
  with addNegativeKeywords_ad_group_precedence [of both_levels sample_client]
  obtain ops where o: "fst (addNegativeKeywords sample_client both_levels)
         = [AdGroupCriteriaCreate ops]"
    by blast
  have "addNegativeKeywords sample_client both_levels
      = ([AdGroupCriteriaCreate
            [\<lparr>agc_ad_group = ''customers/1234567890/adGroups/456'', agc_status = ENABLED,
              agc_negative = True,
              agc_keyword = \<lparr>keyword_text = ''free'', match_type = BROAD\<rparr>\<rparr>]],
         Inr (Some \<lparr>anr_success = True, anr_level = level_ad_group, anr_addedKeywords = 1\<rparr>))"
    by (simp add: addNegativeKeywords_def both_levels_def truthy_def interpolate_def
        sample_client_def)
  with t o show ?thesis
    by simp
qed

end
